theory Spec2Isabelle
  imports Complex_Main
begin

section \<open>Tensors and the framework operations the notebooks call\<close>

text \<open>
  Both notebooks are straight-line Python that calls TensorFlow 1.4 operations. A tensor of
  rank 2 is a list of rows, a tensor of rank 3 a list of rank-2 tensors, and so on, with the
  batch axis outermost. The notebooks declare every tensor as float32; the model computes
  over the reals, so the theorems are about the equations the graph evaluates, not about
  rounding. The framework rejects operands of incompatible shapes; the dense operations
  below are total, and the theorems assume the shapes the notebooks declare.
\<close>

type_synonym vec = "real list"
type_synonym matrix = "real list list"
type_synonym tensor3 = "real list list list"
type_synonym tensor4 = "real list list list list"

datatype tf_error = InvalidArgument

definition is_matrix :: "'a list list \<Rightarrow> nat \<Rightarrow> nat \<Rightarrow> bool" where
  "is_matrix m r c = (length m = r \<and> (\<forall>row \<in> set m. length row = c))"

definition dot :: "vec \<Rightarrow> vec \<Rightarrow> real" where
  "dot u v = sum_list (map2 (*) u v)"

definition ncols :: "'a list list \<Rightarrow> nat" where
  "ncols m = (case m of [] \<Rightarrow> 0 | row # _ \<Rightarrow> length row)"

definition col :: "matrix \<Rightarrow> nat \<Rightarrow> vec" where
  "col m j = map (\<lambda>row. row ! j) m"

text \<open>\<^verbatim>\<open>tf.matmul(a, b)\<close>: entry (i, j) is the dot product of row i of a and column j of b.\<close>

definition matmul :: "matrix \<Rightarrow> matrix \<Rightarrow> matrix" where
  "matmul a b = map (\<lambda>row. map (\<lambda>j. dot row (col b j)) [0..<ncols b]) a"

text \<open>Elementwise \<^verbatim>\<open>+\<close> and \<^verbatim>\<open>*\<close> of two tensors of the same shape, and an elementwise map.\<close>

definition tadd :: "matrix \<Rightarrow> matrix \<Rightarrow> matrix" where
  "tadd a b = map2 (map2 (+)) a b"

definition tmul :: "matrix \<Rightarrow> matrix \<Rightarrow> matrix" where
  "tmul a b = map2 (map2 (*)) a b"

definition tmap :: "(real \<Rightarrow> real) \<Rightarrow> matrix \<Rightarrow> matrix" where
  "tmap f a = map (map f) a"

text \<open>\<^verbatim>\<open>tf.nn.xw_plus_b(x, weights, biases)\<close> is \<^verbatim>\<open>matmul(x, weights) + biases\<close>, the bias
  broadcast over the rows.\<close>

definition xw_plus_b :: "matrix \<Rightarrow> matrix \<Rightarrow> vec \<Rightarrow> matrix" where
  "xw_plus_b x w b = map (\<lambda>row. map2 (+) row b) (matmul x w)"

definition sigmoid :: "real \<Rightarrow> real" where
  "sigmoid x = 1 / (1 + exp (- x))"

definition relu :: "real \<Rightarrow> real" where
  "relu x = max x 0"

text \<open>\<^verbatim>\<open>tf.zeros(shape=[n, d])\<close>.\<close>

definition zeros :: "nat \<Rightarrow> nat \<Rightarrow> matrix" where
  "zeros n d = replicate n (replicate d 0)"

text \<open>Python indexing of one axis: a negative index counts from the end.\<close>

definition py_index :: "'a list \<Rightarrow> int \<Rightarrow> 'a" where
  "py_index xs j = xs ! nat (if j < 0 then int (length xs) + j else j)"

text \<open>The slice \<^verbatim>\<open>t[:, j, :]\<close> of a rank-3 tensor.\<close>

definition slice_axis1 :: "tensor3 \<Rightarrow> int \<Rightarrow> matrix" where
  "slice_axis1 t j = map (\<lambda>s. py_index s j) t"

text \<open>\<^verbatim>\<open>tf.stack(ts, axis=1)\<close> of rank-2 tensors of one shape: entry \<open>[b, k, :]\<close> of the result is
  row \<open>b\<close> of the \<open>k\<close>-th tensor. (The framework refuses an empty list; the loops below always
  stack nine tensors.)\<close>

definition stack_axis1 :: "matrix list \<Rightarrow> tensor3" where
  "stack_axis1 ts = (case ts of [] \<Rightarrow> []
     | t # _ \<Rightarrow> map (\<lambda>b. map (\<lambda>u. u ! b) ts) [0..<length t])"

subsection \<open>Placeholders\<close>

text \<open>A placeholder is declared with an element type and a shape in which \<^verbatim>\<open>None\<close> leaves a
  dimension open. A value may be fed to it when it has the placeholder's rank and agrees
  with every dimension the placeholder fixes.\<close>

datatype dtype = Float32 | Int32

record placeholder =
  ph_dtype :: dtype
  ph_shape :: "nat option list"
  ph_name :: string

definition feedable :: "placeholder \<Rightarrow> nat list \<Rightarrow> bool" where
  "feedable p dims = list_all2 (\<lambda>d s. case s of None \<Rightarrow> True | Some k \<Rightarrow> d = k) dims (ph_shape p)"


subsection \<open>Gradients\<close>






section \<open>The recurrent network notebook\<close>

definition SEQ_LENGTH :: nat where
  "SEQ_LENGTH = 10"

definition HIDDEN_DIM :: nat where
  "HIDDEN_DIM = 4"


text \<open>
  \<^verbatim>\<open>
  seq_input = tf.placeholder(dtype=tf.float32, shape=[None,SEQ_LENGTH,1], name='seq_input')
  \<close>
  A batch of any size, each sequence \<open>SEQ_LENGTH\<close> one-element rows.
\<close>

definition seq_input_placeholder :: placeholder where
  "seq_input_placeholder = \<lparr>ph_dtype = Float32, ph_shape = [None, Some SEQ_LENGTH, Some 1],
                             ph_name = ''seq_input''\<rparr>"

definition wf_seq_input :: "tensor3 \<Rightarrow> bool" where
  "wf_seq_input x = (\<forall>s \<in> set x. is_matrix s SEQ_LENGTH 1)"

text \<open>The variables of the \<^verbatim>\<open>weights\<close> scope. Both networks declare \<^verbatim>\<open>W_yh\<close> and \<^verbatim>\<open>b_y\<close>.\<close>

record out_weights =
  W_yh :: matrix
  b_y :: vec

record rnn_weights = out_weights +
  W_hx :: matrix
  W_hh :: matrix
  b_h :: vec

definition wf_out_weights :: "'a out_weights_scheme \<Rightarrow> bool" where
  "wf_out_weights w = (is_matrix (W_yh w) HIDDEN_DIM 1 \<and> length (b_y w) = 1)"

definition wf_rnn_weights :: "rnn_weights \<Rightarrow> bool" where
  "wf_rnn_weights w = (is_matrix (W_hx w) 1 HIDDEN_DIM \<and> is_matrix (W_hh w) HIDDEN_DIM HIDDEN_DIM
     \<and> length (b_h w) = HIDDEN_DIM \<and> wf_out_weights w)"

subsection \<open>The vanilla RNN loop\<close>

text \<open>
  \<^verbatim>\<open>
  hidden = hidden_0
  hiddens = list()
  for j in range(SEQ_LENGTH-1):
      hidden = tf.matmul(seq_input[:,j,:], W_hx) + tf.nn.xw_plus_b(hidden, W_hh, b_h)
      hidden = tf.sigmoid(hidden)
      hiddens.append(hidden)
  hiddens = tf.stack(hiddens, axis=1, name='hiddens')
  \<close>
  The loop is a recursion over the remaining values of \<open>j\<close>, carrying \<open>hidden\<close> and
  \<open>hiddens\<close>.
\<close>

fun rnn_loop :: "rnn_weights \<Rightarrow> tensor3 \<Rightarrow> nat list \<Rightarrow> matrix \<Rightarrow> matrix list \<Rightarrow> matrix \<times> matrix list" where
  "rnn_loop w seq_input [] hidden hiddens = (hidden, hiddens)"
| "rnn_loop w seq_input (j # js) hidden hiddens =
     (let hidden1 = tadd (matmul (slice_axis1 seq_input (int j)) (W_hx w))
                         (xw_plus_b hidden (W_hh w) (b_h w));
          hidden2 = tmap sigmoid hidden1
      in rnn_loop w seq_input js hidden2 (hiddens @ [hidden2]))"

definition rnn_hiddens_list :: "rnn_weights \<Rightarrow> tensor3 \<Rightarrow> matrix list" where
  "rnn_hiddens_list w seq_input =
     (let hidden_0 = zeros (length seq_input) HIDDEN_DIM
      in snd (rnn_loop w seq_input [0..<SEQ_LENGTH - 1] hidden_0 []))"

definition rnn :: "rnn_weights \<Rightarrow> tensor3 \<Rightarrow> tensor3" where
  "rnn w seq_input = stack_axis1 (rnn_hiddens_list w seq_input)"

subsection \<open>The textbook recurrence\<close>

text \<open>
  The notebook's markdown states the recurrence for one sequence with column vectors,
  \<open>h(t) = \<sigma>(W\<^sup>h\<^sup>x x(t) + W\<^sup>h\<^sup>h h(t-1) + b\<^sub>h)\<close> and \<open>h(0) = 0\<close>. A variable declared with shape
  \<open>[from, to]\<close> is the weight from one layer to the next, so its product with a column
  vector of the source layer has one entry per column of the variable.
\<close>

definition weight_apply :: "matrix \<Rightarrow> vec \<Rightarrow> vec" where
  "weight_apply W v = map (\<lambda>k. dot (col W k) v) [0..<ncols W]"

definition vadd :: "vec \<Rightarrow> vec \<Rightarrow> vec" where
  "vadd u v = map2 (+) u v"

fun rnn_textbook_h :: "rnn_weights \<Rightarrow> (nat \<Rightarrow> vec) \<Rightarrow> nat \<Rightarrow> vec" where
  "rnn_textbook_h w x 0 = replicate HIDDEN_DIM 0"
| "rnn_textbook_h w x (Suc t) =
     map sigmoid (vadd (vadd (weight_apply (W_hx w) (x (Suc t)))
                             (weight_apply (W_hh w) (rnn_textbook_h w x t))) (b_h w))"

text \<open>The input at time \<open>t \<ge> 1\<close> of sequence \<open>s\<close> is its element \<open>t - 1\<close>.\<close>

definition input_at :: "real list list \<Rightarrow> nat \<Rightarrow> vec" where
  "input_at s t = s ! (t - 1)"


subsection \<open>The LSTM loop\<close>

record lstm_weights = out_weights +
  W_gx :: matrix
  W_gh :: matrix
  W_ix :: matrix
  W_ih :: matrix
  W_fx :: matrix
  W_fh :: matrix
  W_ox :: matrix
  W_oh :: matrix
  b_g :: vec
  b_i :: vec
  b_f :: vec
  b_o :: vec

definition wf_lstm_weights :: "lstm_weights \<Rightarrow> bool" where
  "wf_lstm_weights w =
     (is_matrix (W_gx w) 1 HIDDEN_DIM \<and> is_matrix (W_gh w) HIDDEN_DIM HIDDEN_DIM
    \<and> is_matrix (W_ix w) 1 HIDDEN_DIM \<and> is_matrix (W_ih w) HIDDEN_DIM HIDDEN_DIM
    \<and> is_matrix (W_fx w) 1 HIDDEN_DIM \<and> is_matrix (W_fh w) HIDDEN_DIM HIDDEN_DIM
    \<and> is_matrix (W_ox w) 1 HIDDEN_DIM \<and> is_matrix (W_oh w) HIDDEN_DIM HIDDEN_DIM
    \<and> length (b_g w) = HIDDEN_DIM \<and> length (b_i w) = HIDDEN_DIM
    \<and> length (b_f w) = HIDDEN_DIM \<and> length (b_o w) = HIDDEN_DIM \<and> wf_out_weights w)"

text \<open>
  The body of the loop, with every local it assigns:
  \<^verbatim>\<open>
  g = tf.matmul(seq_input[:,j,:], W_gx) + tf.nn.xw_plus_b(hidden, W_gh, b_g)
  g = tf.tanh(g, name='g')
  i = tf.matmul(seq_input[:,j,:], W_ix) + tf.nn.xw_plus_b(hidden, W_ih, b_i)
  i = tf.sigmoid(i, name='i')
  f = tf.matmul(seq_input[:,j,:], W_fx) + tf.nn.xw_plus_b(hidden, W_fh, b_f)
  f = tf.sigmoid(g, name='f')
  o = tf.matmul(seq_input[:,j,:], W_ox) + tf.nn.xw_plus_b(hidden, W_oh, b_o)
  o = tf.sigmoid(o, name='o')
  state = g*i + f*state
  hidden = o*tf.tanh(state)
  \<close>
  The second assignment to \<^verbatim>\<open>f\<close> reads \<^verbatim>\<open>g\<close>, which by then holds the squashed candidate.
\<close>

record lstm_locals =
  gate_g :: matrix
  gate_i :: matrix
  pre_f :: matrix
  gate_f :: matrix
  gate_o :: matrix
  new_state :: matrix
  new_hidden :: matrix

definition lstm_body :: "lstm_weights \<Rightarrow> matrix \<Rightarrow> matrix \<Rightarrow> matrix \<Rightarrow> lstm_locals" where
  "lstm_body w x_j state hidden =
     (let g1 = tadd (matmul x_j (W_gx w)) (xw_plus_b hidden (W_gh w) (b_g w));
          g2 = tmap tanh g1;
          i1 = tadd (matmul x_j (W_ix w)) (xw_plus_b hidden (W_ih w) (b_i w));
          i2 = tmap sigmoid i1;
          f1 = tadd (matmul x_j (W_fx w)) (xw_plus_b hidden (W_fh w) (b_f w));
          f2 = tmap sigmoid g2;
          o1 = tadd (matmul x_j (W_ox w)) (xw_plus_b hidden (W_oh w) (b_o w));
          o2 = tmap sigmoid o1;
          state2 = tadd (tmul g2 i2) (tmul f2 state);
          hidden2 = tmul o2 (tmap tanh state2)
      in \<lparr>gate_g = g2, gate_i = i2, pre_f = f1, gate_f = f2, gate_o = o2,
          new_state = state2, new_hidden = hidden2\<rparr>)"

fun lstm_loop :: "lstm_weights \<Rightarrow> tensor3 \<Rightarrow> nat list \<Rightarrow> matrix \<Rightarrow> matrix list \<Rightarrow> matrix \<Rightarrow> matrix list
    \<Rightarrow> matrix list \<times> matrix list" where
  "lstm_loop w seq_input [] state states hidden hiddens = (states, hiddens)"
| "lstm_loop w seq_input (j # js) state states hidden hiddens =
     (let l = lstm_body w (slice_axis1 seq_input (int j)) state hidden
      in lstm_loop w seq_input js (new_state l) (states @ [new_state l])
           (new_hidden l) (hiddens @ [new_hidden l]))"

definition lstm_lists :: "lstm_weights \<Rightarrow> tensor3 \<Rightarrow> matrix list \<times> matrix list" where
  "lstm_lists w seq_input =
     (let state_0 = zeros (length seq_input) HIDDEN_DIM;
          hidden_0 = zeros (length seq_input) HIDDEN_DIM
      in lstm_loop w seq_input [0..<SEQ_LENGTH - 1] state_0 [] hidden_0 [])"

definition lstm_states :: "lstm_weights \<Rightarrow> tensor3 \<Rightarrow> tensor3" where
  "lstm_states w seq_input = stack_axis1 (fst (lstm_lists w seq_input))"

definition lstm :: "lstm_weights \<Rightarrow> tensor3 \<Rightarrow> tensor3" where
  "lstm w seq_input = stack_axis1 (snd (lstm_lists w seq_input))"

subsection \<open>The textbook LSTM equations\<close>

text \<open>In the notebook's markdown every gate of one sequence is an activation of
  \<open>W\<^sup>x x(t) + W\<^sup>h h(t-1) + b\<close>, with the gate's own weights and bias.\<close>

definition vmul :: "vec \<Rightarrow> vec \<Rightarrow> vec" where
  "vmul u v = map2 (*) u v"

definition textbook_gate :: "(real \<Rightarrow> real) \<Rightarrow> matrix \<Rightarrow> matrix \<Rightarrow> vec \<Rightarrow> vec \<Rightarrow> vec \<Rightarrow> vec" where
  "textbook_gate act Wx Wh b x h =
     map act (vadd (vadd (weight_apply Wx x) (weight_apply Wh h)) b)"

text \<open>
  What the loop body computes for one sequence of the batch, read off the code: the
  candidate, input and output gates have their own weights, and the forget gate is the
  sigmoid of the candidate.
\<close>

fun lstm_per_sequence :: "lstm_weights \<Rightarrow> (nat \<Rightarrow> vec) \<Rightarrow> nat \<Rightarrow> vec \<times> vec" where
  "lstm_per_sequence w x 0 = (replicate HIDDEN_DIM 0, replicate HIDDEN_DIM 0)"
| "lstm_per_sequence w x (Suc t) =
     (let (s, h) = lstm_per_sequence w x t;
          cg = textbook_gate tanh (W_gx w) (W_gh w) (b_g w) (x (Suc t)) h;
          ig = textbook_gate sigmoid (W_ix w) (W_ih w) (b_i w) (x (Suc t)) h;
          fg = map sigmoid cg;
          og = textbook_gate sigmoid (W_ox w) (W_oh w) (b_o w) (x (Suc t)) h;
          s' = vadd (vmul cg ig) (vmul fg s)
      in (s', vmul og (map tanh s')))"

subsection \<open>Reshaping\<close>

text \<open>
  \<^verbatim>\<open>tf.reshape\<close> keeps the elements in row-major order and changes the shape; one entry of
  the requested shape may be \<open>-1\<close> and is then inferred from the element count. A request
  the count does not fit is refused.
\<close>

record tensor =
  shape :: "nat list"
  elems :: "real list"

definition tf_reshape :: "tensor \<Rightarrow> int list \<Rightarrow> tf_error + tensor" where
  "tf_reshape t dims =
     (let total = length (elems t);
          known = prod_list (map nat (filter (\<lambda>d. d \<noteq> - 1) dims));
          unknown = length (filter (\<lambda>d. d = - 1) dims)
      in if list_ex (\<lambda>d. d < - 1) dims \<or> 1 < unknown then Inl InvalidArgument
         else if unknown = 0 then
           (if known = total then Inr \<lparr>shape = map nat dims, elems = elems t\<rparr>
            else Inl InvalidArgument)
         else if known = 0 \<or> total mod known \<noteq> 0 then Inl InvalidArgument
         else Inr \<lparr>shape = map (\<lambda>d. if d = - 1 then total div known else nat d) dims,
                   elems = elems t\<rparr>)"

text \<open>Between the nested view and the row-major view.\<close>

primrec chunks :: "nat \<Rightarrow> nat \<Rightarrow> 'a list \<Rightarrow> 'a list list" where
  "chunks 0 c xs = []"
| "chunks (Suc r) c xs = take c xs # chunks r c (drop c xs)"

definition from_matrix :: "matrix \<Rightarrow> tensor" where
  "from_matrix m = \<lparr>shape = [length m, ncols m], elems = concat m\<rparr>"

definition from_tensor3 :: "tensor3 \<Rightarrow> tensor" where
  "from_tensor3 t = \<lparr>shape = [length t, ncols t, ncols (concat t)], elems = concat (concat t)\<rparr>"

definition from_tensor4 :: "tensor4 \<Rightarrow> tensor" where
  "from_tensor4 t = \<lparr>shape = [length t, ncols t, ncols (concat t), ncols (concat (concat t))],
                     elems = concat (concat (concat t))\<rparr>"

definition to_matrix :: "tensor \<Rightarrow> matrix" where
  "to_matrix t = (case shape t of [r, c] \<Rightarrow> chunks r c (elems t) | _ \<Rightarrow> [])"

definition to_tensor3 :: "tensor \<Rightarrow> tensor3" where
  "to_tensor3 t = (case shape t of
       [a, b, c] \<Rightarrow> map (chunks b c) (chunks a (b * c) (elems t))
     | _ \<Rightarrow> [])"

subsection \<open>Output and learning, the same cells after either loop\<close>

text \<open>
  \<^verbatim>\<open>
  outputs = tf.reshape(hiddens, [-1,HIDDEN_DIM])
  outputs = tf.nn.xw_plus_b(outputs, W_yh, b_y)
  outputs = tf.reshape(outputs, [-1,SEQ_LENGTH-1,1], name='outputs')
  \<close>
\<close>

definition outputs :: "'a out_weights_scheme \<Rightarrow> tensor3 \<Rightarrow> tf_error + tensor3" where
  "outputs w hiddens =
     (case tf_reshape (from_tensor3 hiddens) [- 1, int HIDDEN_DIM] of
        Inl e \<Rightarrow> Inl e
      | Inr outputs1 \<Rightarrow>
          (let outputs2 = xw_plus_b (to_matrix outputs1) (W_yh w) (b_y w)
           in case tf_reshape (from_matrix outputs2) [- 1, int (SEQ_LENGTH - 1), 1] of
                Inl e \<Rightarrow> Inl e
              | Inr outputs3 \<Rightarrow> Inr (to_tensor3 outputs3)))"

text \<open>\<^verbatim>\<open>tf.losses.mean_squared_error(labels, predictions)\<close>: the mean of the squared
  differences over all elements (zero for no elements).\<close>

definition mean_squared_error :: "matrix \<Rightarrow> matrix \<Rightarrow> real" where
  "mean_squared_error labels predictions =
     (let losses = concat (map2 (map2 (\<lambda>p l. (p - l)\<^sup>2)) predictions labels)
      in sum_list losses / real (length losses))"

text \<open>
  \<^verbatim>\<open>
  predict = tf.identity(outputs[:,-1,:], 'predict')
  loss = tf.losses.mean_squared_error(labels=seq_input[:,-1,:], predictions=predict)
  \<close>
\<close>

definition predict :: "tensor3 \<Rightarrow> matrix" where
  "predict outs = slice_axis1 outs (- 1)"

definition loss :: "tensor3 \<Rightarrow> tensor3 \<Rightarrow> real" where
  "loss seq_input outs =
     mean_squared_error (slice_axis1 seq_input (- 1)) (predict outs)"



text \<open>The two graphs, from the placeholder to the prediction and the loss.\<close>

definition rnn_predict :: "rnn_weights \<Rightarrow> tensor3 \<Rightarrow> tf_error + matrix" where
  "rnn_predict w seq_input = map_sum id predict (outputs w (rnn w seq_input))"

definition rnn_loss :: "rnn_weights \<Rightarrow> tensor3 \<Rightarrow> tf_error + real" where
  "rnn_loss w seq_input = map_sum id (loss seq_input) (outputs w (rnn w seq_input))"

definition lstm_predict :: "lstm_weights \<Rightarrow> tensor3 \<Rightarrow> tf_error + matrix" where
  "lstm_predict w seq_input = map_sum id predict (outputs w (lstm w seq_input))"

definition lstm_loss :: "lstm_weights \<Rightarrow> tensor3 \<Rightarrow> tf_error + real" where
  "lstm_loss w seq_input = map_sum id (loss seq_input) (outputs w (lstm w seq_input))"









section \<open>The AlexNet notebook\<close>

subsection \<open>Convolution, normalisation and pooling\<close>

datatype padding = SAME | VALID

text \<open>
  Output extent of a strided window along one axis: with \<^verbatim>\<open>'SAME'\<close> padding the input
  extent divided by the stride, rounded up; with \<^verbatim>\<open>'VALID'\<close> padding the number of window
  positions that fit. \<^verbatim>\<open>'SAME'\<close> pads with zeros, the smaller half before the data.
\<close>

definition out_size :: "padding \<Rightarrow> nat \<Rightarrow> nat \<Rightarrow> nat \<Rightarrow> nat" where
  "out_size p n k s = (case p of SAME \<Rightarrow> (n + s - 1) div s | VALID \<Rightarrow> (n + s - k) div s)"

definition pad_before :: "padding \<Rightarrow> nat \<Rightarrow> nat \<Rightarrow> nat \<Rightarrow> nat" where
  "pad_before p n k s =
     (case p of SAME \<Rightarrow> ((out_size SAME n k s - 1) * s + k - n) div 2 | VALID \<Rightarrow> 0)"

text \<open>The value at row \<open>r\<close>, column \<open>c\<close> of the zero-padded image, \<open>pt\<close> rows and \<open>pl\<close> columns
  of padding before the data.\<close>

definition padded_at :: "real list list list \<Rightarrow> nat \<Rightarrow> nat \<Rightarrow> nat \<Rightarrow> nat \<Rightarrow> nat \<Rightarrow> real" where
  "padded_at img pt pl r c ch =
     (if pt \<le> r \<and> r - pt < length img \<and> pl \<le> c \<and> c - pl < ncols img
      then img ! (r - pt) ! (c - pl) ! ch else 0)"

text \<open>The variables a \<^verbatim>\<open>tf.layers.conv2d\<close> creates: a kernel of shape
  \<open>[height, width, in_channels, filters]\<close> and a bias of shape \<open>[filters]\<close>.\<close>

record conv_vars =
  kernel :: "real list list list list"
  bias :: vec

definition wf_conv_vars :: "conv_vars \<Rightarrow> nat \<Rightarrow> nat \<Rightarrow> nat \<Rightarrow> nat \<Rightarrow> bool" where
  "wf_conv_vars v kh kw cin filters =
     (length (kernel v) = kh
      \<and> (\<forall>a \<in> set (kernel v). length a = kw
           \<and> (\<forall>b \<in> set a. is_matrix b cin filters))
      \<and> length (bias v) = filters)"

definition conv2d :: "tensor4 \<Rightarrow> nat \<Rightarrow> nat \<times> nat \<Rightarrow> nat \<times> nat \<Rightarrow> padding \<Rightarrow> (real \<Rightarrow> real)
    \<Rightarrow> conv_vars \<Rightarrow> tensor4" where
  "conv2d inputs filters kernel_size strides pad activation v =
     map (\<lambda>img.
       (let (kh, kw) = kernel_size; (sh, sw) = strides;
            cin = ncols (concat img);
            oh = out_size pad (length img) kh sh;
            ow = out_size pad (ncols img) kw sw;
            pt = pad_before pad (length img) kh sh;
            pl = pad_before pad (ncols img) kw sw
        in map (\<lambda>i. map (\<lambda>j. map (\<lambda>f.
             activation (bias v ! f +
               (\<Sum>di\<leftarrow>[0..<kh]. \<Sum>dj\<leftarrow>[0..<kw]. \<Sum>c\<leftarrow>[0..<cin].
                  padded_at img pt pl (i * sh + di) (j * sw + dj) c * (kernel v ! di ! dj ! c ! f))))
             [0..<filters]) [0..<ow]) [0..<oh])) inputs"

text \<open>
  \<^verbatim>\<open>tf.nn.lrn(input, depth_radius, bias, alpha, beta)\<close>: along the channel axis,
  \<^verbatim>\<open>sqr_sum[a,b,c,d] = sum(input[a,b,c,d-depth_radius : d+depth_radius+1] ** 2)\<close> and
  \<^verbatim>\<open>output = input / (bias + alpha * sqr_sum) ** beta\<close>, the window cut at the first and
  the last channel.
\<close>

definition sqr_sum :: "vec \<Rightarrow> nat \<Rightarrow> nat \<Rightarrow> real" where
  "sqr_sum px d depth_radius =
     (\<Sum>k\<leftarrow>[d - depth_radius..<min (length px) (d + depth_radius + 1)]. (px ! k)\<^sup>2)"

definition lrn :: "tensor4 \<Rightarrow> nat \<Rightarrow> real \<Rightarrow> real \<Rightarrow> real \<Rightarrow> tensor4" where
  "lrn input depth_radius bias0 alpha beta =
     map (map (map (\<lambda>px.
       map (\<lambda>d. px ! d / (bias0 + alpha * sqr_sum px d depth_radius) powr beta)
         [0..<length px]))) input"

text \<open>\<^verbatim>\<open>tf.layers.max_pooling2d(inputs, pool_size, strides)\<close>, whose padding defaults to
  \<^verbatim>\<open>'valid'\<close>: the maximum of each window, channel by channel.\<close>

definition max_pooling2d :: "tensor4 \<Rightarrow> nat \<times> nat \<Rightarrow> nat \<times> nat \<Rightarrow> tensor4" where
  "max_pooling2d inputs pool_size strides =
     map (\<lambda>img.
       (let (ph, pw) = pool_size; (sh, sw) = strides;
            oh = out_size VALID (length img) ph sh;
            ow = out_size VALID (ncols img) pw sw
        in map (\<lambda>i. map (\<lambda>j. map (\<lambda>ch.
             Max (set (concat (map (\<lambda>di. map (\<lambda>dj. img ! (i * sh + di) ! (j * sw + dj) ! ch)
                                       [0..<pw]) [0..<ph]))))
             [0..<ncols (concat img)]) [0..<ow]) [0..<oh])) inputs"

subsection \<open>Dense layers and dropout\<close>

record dense_vars =
  dkernel :: matrix
  dbias :: vec

definition wf_dense_vars :: "dense_vars \<Rightarrow> nat \<Rightarrow> nat \<Rightarrow> bool" where
  "wf_dense_vars v n_in units = (is_matrix (dkernel v) n_in units \<and> length (dbias v) = units)"

text \<open>\<^verbatim>\<open>tf.layers.dense(inputs, units, activation)\<close> is
  \<^verbatim>\<open>activation(matmul(inputs, kernel) + bias)\<close>.\<close>

definition dense :: "matrix \<Rightarrow> (real \<Rightarrow> real) \<Rightarrow> dense_vars \<Rightarrow> matrix" where
  "dense inputs activation v = tmap activation (xw_plus_b inputs (dkernel v) (dbias v))"

text \<open>\<^verbatim>\<open>tf.layers.dropout(inputs, rate, training=True)\<close> keeps an element with probability
  \<open>1 - rate\<close> and scales it by \<open>1 / (1 - rate)\<close>; which elements are kept is an input of the
  model.\<close>

definition dropout :: "matrix \<Rightarrow> real \<Rightarrow> bool list list \<Rightarrow> matrix" where
  "dropout inputs rate keep =
     map2 (map2 (\<lambda>x k. if k then x / (1 - rate) else 0)) inputs keep"

subsection \<open>The layers of the notebook\<close>

record alexnet_vars =
  conv_layer_1 :: conv_vars
  conv_layer_2 :: conv_vars
  conv_layer_3 :: conv_vars
  conv_layer_4 :: conv_vars
  conv_layer_5 :: conv_vars
  fc_layer_1 :: dense_vars
  fc_layer_2 :: dense_vars
  softmax_layer :: dense_vars

text \<open>The shapes \<^verbatim>\<open>tf.trainable_variables()\<close> prints in the notebook.\<close>

definition wf_alexnet_vars :: "alexnet_vars \<Rightarrow> bool" where
  "wf_alexnet_vars v =
     (wf_conv_vars (conv_layer_1 v) 11 11 3 96 \<and> wf_conv_vars (conv_layer_2 v) 5 5 96 256
    \<and> wf_conv_vars (conv_layer_3 v) 3 3 256 384 \<and> wf_conv_vars (conv_layer_4 v) 3 3 384 384
    \<and> wf_conv_vars (conv_layer_5 v) 3 3 384 256
    \<and> wf_dense_vars (fc_layer_1 v) 43264 4096 \<and> wf_dense_vars (fc_layer_2 v) 4096 4096
    \<and> wf_dense_vars (softmax_layer v) 4096 1000)"

text \<open>
  \<^verbatim>\<open>
  image_batch = tf.placeholder(tf.float32, [None,224,224,3], 'image_batch')
  label_batch = tf.placeholder(tf.int32, [None], 'label_batch')
  \<close>
\<close>

definition image_batch_placeholder :: placeholder where
  "image_batch_placeholder = \<lparr>ph_dtype = Float32, ph_shape = [None, Some 224, Some 224, Some 3],
                               ph_name = ''image_batch''\<rparr>"

definition label_batch_placeholder :: placeholder where
  "label_batch_placeholder = \<lparr>ph_dtype = Int32, ph_shape = [None], ph_name = ''label_batch''\<rparr>"

definition has_shape4 :: "tensor4 \<Rightarrow> nat \<Rightarrow> nat \<Rightarrow> nat \<Rightarrow> nat \<Rightarrow> bool" where
  "has_shape4 t n h w c =
     (length t = n \<and> (\<forall>img \<in> set t. length img = h \<and> (\<forall>row \<in> set img. is_matrix row w c)))"

definition conv1 :: "alexnet_vars \<Rightarrow> tensor4 \<Rightarrow> tensor4" where
  "conv1 v images = conv2d images 96 (11, 11) (4, 4) SAME relu (conv_layer_1 v)"

definition lrn1 :: "alexnet_vars \<Rightarrow> tensor4 \<Rightarrow> tensor4" where
  "lrn1 v images = lrn (conv1 v images) 5 2 (1 / 10 ^ 4) 0.75"

definition maxpool1 :: "alexnet_vars \<Rightarrow> tensor4 \<Rightarrow> tensor4" where
  "maxpool1 v images = max_pooling2d (lrn1 v images) (2, 2) (1, 1)"

definition conv2 :: "alexnet_vars \<Rightarrow> tensor4 \<Rightarrow> tensor4" where
  "conv2 v images = conv2d (maxpool1 v images) 256 (5, 5) (2, 2) SAME relu (conv_layer_2 v)"

definition lrn2 :: "alexnet_vars \<Rightarrow> tensor4 \<Rightarrow> tensor4" where
  "lrn2 v images = lrn (conv2 v images) 5 2 (1 / 10 ^ 4) 0.75"

definition maxpool2 :: "alexnet_vars \<Rightarrow> tensor4 \<Rightarrow> tensor4" where
  "maxpool2 v images = max_pooling2d (lrn2 v images) (2, 2) (1, 1)"

definition conv3 :: "alexnet_vars \<Rightarrow> tensor4 \<Rightarrow> tensor4" where
  "conv3 v images = conv2d (maxpool2 v images) 384 (3, 3) (2, 2) VALID relu (conv_layer_3 v)"

definition conv4 :: "alexnet_vars \<Rightarrow> tensor4 \<Rightarrow> tensor4" where
  "conv4 v images = conv2d (conv3 v images) 384 (3, 3) (1, 1) SAME relu (conv_layer_4 v)"

definition conv5 :: "alexnet_vars \<Rightarrow> tensor4 \<Rightarrow> tensor4" where
  "conv5 v images = conv2d (conv4 v images) 256 (3, 3) (1, 1) SAME relu (conv_layer_5 v)"

text \<open>
  \<^verbatim>\<open>
  conv5 = tf.reshape(conv5, [-1, 13*13*256])
  dense1 = tf.layers.dense(inputs=conv5, units=4096, activation=tf.nn.relu, ...)
  dense1 = tf.layers.dropout(inputs=dense1, rate=0.5, training=True)
  \<close>
\<close>

definition flatten_conv5 :: "tensor4 \<Rightarrow> tf_error + matrix" where
  "flatten_conv5 c5 = map_sum id to_matrix (tf_reshape (from_tensor4 c5) [- 1, 13 * 13 * 256])"

definition dense1 :: "alexnet_vars \<Rightarrow> bool list list \<Rightarrow> matrix \<Rightarrow> matrix" where
  "dense1 v keep c5 = dropout (dense c5 relu (fc_layer_1 v)) 0.5 keep"

definition dense2 :: "alexnet_vars \<Rightarrow> bool list list \<Rightarrow> matrix \<Rightarrow> matrix" where
  "dense2 v keep d1 = dropout (dense d1 relu (fc_layer_2 v)) 0.5 keep"

text \<open>
  \<^verbatim>\<open>
  softmax = tf.layers.dense(inputs=dense2, units=1000, activation=tf.nn.relu, ...)
  \<close>
\<close>

definition softmax :: "alexnet_vars \<Rightarrow> matrix \<Rightarrow> matrix" where
  "softmax v d2 = dense d2 relu (softmax_layer v)"

definition alexnet :: "alexnet_vars \<Rightarrow> bool list list \<Rightarrow> bool list list \<Rightarrow> tensor4
    \<Rightarrow> tf_error + matrix" where
  "alexnet v keep1 keep2 images =
     map_sum id (\<lambda>c5. softmax v (dense2 v keep2 (dense1 v keep1 c5)))
       (flatten_conv5 (conv5 v images))"

subsection \<open>Loss, training and prediction\<close>

text \<open>
  \<^verbatim>\<open>tf.losses.sparse_softmax_cross_entropy(labels, logits)\<close>: the logits of each image are
  normalised by softmax, the loss of the image is the negative logarithm of the
  probability of its label, and the result is the mean over the batch. One label per
  row of logits is required, each a class index.
\<close>

definition softmax_normalise :: "vec \<Rightarrow> vec" where
  "softmax_normalise z = map (\<lambda>a. exp a / (\<Sum>b\<leftarrow>z. exp b)) z"

definition sparse_softmax_cross_entropy :: "int list \<Rightarrow> matrix \<Rightarrow> tf_error + real" where
  "sparse_softmax_cross_entropy labels logits =
     (if length labels \<noteq> length logits
         \<or> list_ex (\<lambda>(l, z). l < 0 \<or> int (length z) \<le> l) (zip labels logits)
      then Inl InvalidArgument
      else let losses = map2 (\<lambda>l z. - ln (softmax_normalise z ! nat l)) labels logits
           in Inr (sum_list losses / real (length losses)))"

definition alexnet_loss :: "int list \<Rightarrow> matrix \<Rightarrow> tf_error + real" where
  "alexnet_loss labels softmax_out = sparse_softmax_cross_entropy labels softmax_out"




text \<open>
  \<^verbatim>\<open>
  prediction = tf.argmax(input=softmax, axis=0, output_type=tf.int32, name='prediction')
  accuracy = tf.reduce_mean(tf.to_float(tf.equal(prediction, label_batch)), name='accuracy')
  \<close>
  \<^verbatim>\<open>tf.argmax\<close> along axis 0 of a rank-2 tensor returns, for every column, the index of
  a row holding the column's maximum (here the first such row); it refuses an empty
  axis. \<^verbatim>\<open>tf.equal\<close> broadcasts: two vectors are compared elementwise when their lengths
  agree or when one of them has length 1, and refused otherwise.
\<close>

fun argmax_list :: "real list \<Rightarrow> nat" where
  "argmax_list [] = 0"
| "argmax_list [x] = 0"
| "argmax_list (x # y # ys) =
     (let k = argmax_list (y # ys) in if x < (y # ys) ! k then Suc k else 0)"

definition argmax_axis0 :: "matrix \<Rightarrow> tf_error + int list" where
  "argmax_axis0 t = (if t = [] then Inl InvalidArgument
     else Inr (map (\<lambda>j. int (argmax_list (col t j))) [0..<ncols t]))"

definition tf_equal :: "int list \<Rightarrow> int list \<Rightarrow> tf_error + bool list" where
  "tf_equal a b =
     (if length a = length b then Inr (map2 (=) a b)
      else if length b = 1 then Inr (map (\<lambda>x. x = hd b) a)
      else if length a = 1 then Inr (map (\<lambda>y. hd a = y) b)
      else Inl InvalidArgument)"

definition to_float :: "bool list \<Rightarrow> vec" where
  "to_float bs = map (\<lambda>b. if b then 1 else 0) bs"

definition reduce_mean :: "vec \<Rightarrow> real" where
  "reduce_mean xs = sum_list xs / real (length xs)"

definition prediction :: "matrix \<Rightarrow> tf_error + int list" where
  "prediction softmax_out = argmax_axis0 softmax_out"

definition accuracy :: "matrix \<Rightarrow> int list \<Rightarrow> tf_error + real" where
  "accuracy softmax_out labels =
     (case prediction softmax_out of Inl e \<Rightarrow> Inl e
      | Inr p \<Rightarrow> map_sum id (\<lambda>eq. reduce_mean (to_float eq)) (tf_equal p labels))"


subsection \<open>The AlexNet graph from the placeholders\<close>



definition alexnet_graph_accuracy :: "alexnet_vars \<Rightarrow> bool list list \<Rightarrow> bool list list \<Rightarrow> tensor4
    \<Rightarrow> int list \<Rightarrow> tf_error + real" where
  "alexnet_graph_accuracy v keep1 keep2 images labels =
     (case alexnet v keep1 keep2 images of Inl e \<Rightarrow> Inl e | Inr s \<Rightarrow> accuracy s labels)"







subsection \<open>Inputs for the theorems' instances\<close>

definition rnn_weights_example :: rnn_weights where
  "rnn_weights_example = \<lparr>W_yh = replicate 4 [1], b_y = [0],
     W_hx = [replicate 4 1], W_hh = replicate 4 (replicate 4 0), b_h = replicate 4 0\<rparr>"

definition seq_input_example :: tensor3 where
  "seq_input_example = [[[0], [1], [2], [3], [4], [5], [6], [7], [8], [9]]]"

definition lstm_weights_example :: lstm_weights where
  "lstm_weights_example = \<lparr>W_yh = replicate 4 [1], b_y = [0],
     W_gx = [replicate 4 0], W_gh = replicate 4 (replicate 4 0),
     W_ix = [replicate 4 0], W_ih = replicate 4 (replicate 4 0),
     W_fx = [replicate 4 0], W_fh = replicate 4 (replicate 4 0),
     W_ox = [replicate 4 0], W_oh = replicate 4 (replicate 4 0),
     b_g = replicate 4 0, b_i = replicate 4 0, b_f = replicate 4 1, b_o = replicate 4 0\<rparr>"

definition zero_seq_input :: tensor3 where
  "zero_seq_input = [replicate 10 [0]]"

definition seq_input_example' :: tensor3 where
  "seq_input_example' = [[[0], [1], [2], [3], [4], [5], [6], [7], [8], [100]]]"

definition images_example :: tensor4 where
  "images_example = replicate 1 (replicate 224 (replicate 224 (replicate 3 0)))"

definition conv_vars_zero :: "nat \<Rightarrow> nat \<Rightarrow> nat \<Rightarrow> nat \<Rightarrow> conv_vars" where
  "conv_vars_zero kh kw cin filters =
     \<lparr>kernel = replicate kh (replicate kw (replicate cin (replicate filters 0))),
      bias = replicate filters 0\<rparr>"

definition dense_vars_zero :: "nat \<Rightarrow> nat \<Rightarrow> dense_vars" where
  "dense_vars_zero n_in units = \<lparr>dkernel = replicate n_in (replicate units 0), dbias = replicate units 0\<rparr>"

definition alexnet_vars_example :: alexnet_vars where
  "alexnet_vars_example =
     \<lparr>conv_layer_1 = conv_vars_zero 11 11 3 96, conv_layer_2 = conv_vars_zero 5 5 96 256,
      conv_layer_3 = conv_vars_zero 3 3 256 384, conv_layer_4 = conv_vars_zero 3 3 384 384,
      conv_layer_5 = conv_vars_zero 3 3 384 256,
      fc_layer_1 = dense_vars_zero 43264 4096, fc_layer_2 = dense_vars_zero 4096 4096,
      softmax_layer = dense_vars_zero 4096 1000\<rparr>"

definition scores_example :: matrix where
  "scores_example = [replicate 1000 0, replicate 1000 1]"

definition labels_example :: "int list" where
  "labels_example = [3, 7]"

definition dense2_example :: matrix where
  "dense2_example = [replicate 4096 0]"

definition keep_all_example :: "bool list list" where
  "keep_all_example = replicate 1 (replicate 4096 True)"















section \<open>Properties of the recurrent network notebook\<close>

subsection \<open>Batched operations, sequence by sequence\<close>


lemma map2_same: "map2 f (map g xs) (map h xs) = map (\<lambda>x. f (g x) (h x)) xs"
  by (induction xs) auto

lemma dot_commute: "dot u v = dot v u"
  unfolding dot_def
  by (induction u arbitrary: v) (auto simp: zip_Cons1 split: list.splits)

lemma map2_add_assoc: "map2 (+) u (map2 (+) v (b::real list)) = map2 (+) (map2 (+) u v) b"
proof (induction u arbitrary: v b)
  case Nil then show ?case by simp
next
  case (Cons a u)
  then show ?case by (cases v; cases b) auto
qed

lemma rnn_step_textbook:
  "tmap sigmoid (tadd (matmul (slice_axis1 x (int t)) (W_hx w))
        (xw_plus_b (map (\<lambda>s. rnn_textbook_h w (input_at s) t) x) (W_hh w) (b_h w)))
   = map (\<lambda>s. rnn_textbook_h w (input_at s) (Suc t)) x"
  by (simp add: tmap_def tadd_def matmul_def xw_plus_b_def slice_axis1_def py_index_def
      map2_same weight_apply_def vadd_def input_at_def dot_commute map2_add_assoc o_def)

lemma rnn_loop_textbook:
  "snd (rnn_loop w x [t..<t + k] (map (\<lambda>s. rnn_textbook_h w (input_at s) t) x) hs)
   = hs @ map (\<lambda>u. map (\<lambda>s. rnn_textbook_h w (input_at s) u) x) [Suc t..<Suc (t + k)]"
proof (induction k arbitrary: t hs)
  case 0 then show ?case by simp
next
  case (Suc k)
  have "[t..<t + Suc k] = t # [Suc t..<Suc t + k]" by (simp add: upt_conv_Cons)
  moreover have "[Suc t..<Suc (t + Suc k)] = Suc t # [Suc (Suc t)..<Suc (Suc t + k)]"
    by (simp add: upt_conv_Cons)
  ultimately show ?case using Suc.IH[of "Suc t"]
    by (simp add: Let_def rnn_step_textbook del: upt_Suc)
qed

lemma map_index_nth: "map (\<lambda>b. g (xs ! b)) [0..<length xs] = map g xs"
  by (rule nth_equalityI) auto

lemma stack_axis1_map:
  assumes "us \<noteq> []"
  shows "stack_axis1 (map (\<lambda>u. map (f u) x) us) = map (\<lambda>s. map (\<lambda>u. f u s) us) x"
proof -
  obtain u0 us' where us: "us = u0 # us'" using assms by (cases us) auto
  have "stack_axis1 (map (\<lambda>u. map (f u) x) us)
      = map (\<lambda>b. map (\<lambda>m. m ! b) (map (\<lambda>u. map (f u) x) us)) [0..<length x]"
    by (simp add: stack_axis1_def us)
  also have "\<dots> = map (\<lambda>b. map (\<lambda>u. f u (x ! b)) us) [0..<length x]"
    by (rule map_cong) (auto simp: o_def)
  also have "\<dots> = map (\<lambda>s. map (\<lambda>u. f u s) us) x"
    by (rule map_index_nth)
  finally show ?thesis .
qed

lemma zeros_textbook: "zeros (length x) HIDDEN_DIM = map (\<lambda>s. rnn_textbook_h w (input_at s) 0) x"
  by (simp add: zeros_def map_replicate_const)

lemma rnn_hiddens_list_textbook:
  "rnn_hiddens_list w x = map (\<lambda>u. map (\<lambda>s. rnn_textbook_h w (input_at s) u) x) [1..<SEQ_LENGTH]"
  using rnn_loop_textbook[of w x 0 "SEQ_LENGTH - 1" "[]"]
  by (simp add: rnn_hiddens_list_def zeros_textbook[of x w] SEQ_LENGTH_def del: rnn_textbook_h.simps upt_Suc)

lemma gate_batched:
  "tmap act (tadd (matmul (slice_axis1 x (int t)) Wx) (xw_plus_b (map (\<lambda>s. h s) x) Wh b))
   = map (\<lambda>s. textbook_gate act Wx Wh b (input_at s (Suc t)) (h s)) x"
  by (simp add: tmap_def tadd_def matmul_def xw_plus_b_def slice_axis1_def py_index_def
      map2_same weight_apply_def vadd_def input_at_def dot_commute map2_add_assoc o_def
      textbook_gate_def)

lemma tadd_map: "tadd (map f x) (map g x) = map (\<lambda>s. vadd (f s) (g s)) x"
  by (simp add: tadd_def vadd_def map2_same)

lemma tmul_map: "tmul (map f x) (map g x) = map (\<lambda>s. vmul (f s) (g s)) x"
  by (simp add: tmul_def vmul_def map2_same)

lemma tmap_map: "tmap a (map f x) = map (\<lambda>s. map a (f s)) x"
  by (simp add: tmap_def)

lemma lstm_body_batched:
  "lstm_body w (slice_axis1 x (int t)) (map (\<lambda>s. fst (lstm_per_sequence w (input_at s) t)) x)
       (map (\<lambda>s. snd (lstm_per_sequence w (input_at s) t)) x) = l
   \<Longrightarrow> new_state l = map (\<lambda>s. fst (lstm_per_sequence w (input_at s) (Suc t))) x
     \<and> new_hidden l = map (\<lambda>s. snd (lstm_per_sequence w (input_at s) (Suc t))) x"
  unfolding lstm_body_def Let_def gate_batched tmap_map tmul_map tadd_map
  by (auto simp: Let_def case_prod_beta)

lemma lstm_loop_batched:
  "lstm_loop w x [t..<t + k] (map (\<lambda>s. fst (lstm_per_sequence w (input_at s) t)) x) ss
        (map (\<lambda>s. snd (lstm_per_sequence w (input_at s) t)) x) hs
   = (ss @ map (\<lambda>u. map (\<lambda>s. fst (lstm_per_sequence w (input_at s) u)) x) [Suc t..<Suc (t + k)],
      hs @ map (\<lambda>u. map (\<lambda>s. snd (lstm_per_sequence w (input_at s) u)) x) [Suc t..<Suc (t + k)])"
proof (induction k arbitrary: t ss hs)
  case 0 then show ?case by simp
next
  case (Suc k)
  have a: "[t..<t + Suc k] = t # [Suc t..<Suc t + k]" by (simp add: upt_conv_Cons)
  have b: "[Suc t..<Suc (t + Suc k)] = Suc t # [Suc (Suc t)..<Suc (Suc t + k)]"
    by (simp add: upt_conv_Cons)
  show ?case
    unfolding a b lstm_loop.simps Let_def
    using lstm_body_batched[OF refl, of w x t] Suc.IH[of "Suc t"]
    by (simp del: upt_Suc lstm_per_sequence.simps)
qed

lemma lstm_lists_batched:
  "lstm_lists w x =
     (map (\<lambda>u. map (\<lambda>s. fst (lstm_per_sequence w (input_at s) u)) x) [1..<SEQ_LENGTH],
      map (\<lambda>u. map (\<lambda>s. snd (lstm_per_sequence w (input_at s) u)) x) [1..<SEQ_LENGTH])"
proof -
  have z: "zeros (length x) HIDDEN_DIM = map (\<lambda>s. fst (lstm_per_sequence w (input_at s) 0)) x"
          "zeros (length x) HIDDEN_DIM = map (\<lambda>s. snd (lstm_per_sequence w (input_at s) 0)) x"
    by (simp_all add: zeros_def map_replicate_const)
  show ?thesis
    unfolding lstm_lists_def Let_def
    apply (subst z(1))
    apply (subst z(2))
    using lstm_loop_batched[of w x 0 "SEQ_LENGTH - 1" "[]" "[]"]
    by (simp add: SEQ_LENGTH_def del: lstm_per_sequence.simps upt_Suc)
qed

lemma lstm_batched:
  "lstm w x = map (\<lambda>s. map (\<lambda>t. snd (lstm_per_sequence w (input_at s) t)) [1..<SEQ_LENGTH]) x"
  unfolding lstm_def lstm_lists_batched snd_conv
  by (rule stack_axis1_map) (simp add: SEQ_LENGTH_def)


lemma is_matrix_Cons: "is_matrix (row # m) r c \<longleftrightarrow> (\<exists>r'. r = Suc r' \<and> length row = c \<and> is_matrix m r' c)"
  by (auto simp: is_matrix_def)

lemma length_concat_matrix: "is_matrix m r c \<Longrightarrow> length (concat m) = r * c"
  by (induction m arbitrary: r) (auto simp: is_matrix_Cons is_matrix_def)

lemma chunks_concat: "is_matrix m r c \<Longrightarrow> chunks r c (concat m) = m"
  by (induction m arbitrary: r) (auto simp: is_matrix_Cons is_matrix_def)

lemma is_matrix_concat:
  "\<forall>s \<in> set t. is_matrix s r c \<Longrightarrow> is_matrix (concat t) (length t * r) c"
  by (induction t) (auto simp: is_matrix_def)

lemma chunks_singletons: "length xs = k \<Longrightarrow> chunks k (Suc 0) (map f xs) = map (\<lambda>x. [f x]) xs"
proof (induction xs arbitrary: k)
  case Nil then show ?case by simp
next
  case (Cons a xs)
  then obtain k' where "k = Suc k'" "length xs = k'" by (cases k) auto
  with Cons.IH[of k'] show ?case by simp
qed

lemma tf_reshape_infer_first:
  assumes "0 < c" and "length (elems t) = n * c"
  shows "tf_reshape t [- 1, int c] = Inr \<lparr>shape = [n, c], elems = elems t\<rparr>"
  using assms by (simp add: tf_reshape_def Let_def)

lemma tf_reshape_infer_first3:
  assumes "0 < b" and "0 < c" and "length (elems t) = n * (b * c)"
  shows "tf_reshape t [- 1, int b, int c] = Inr \<lparr>shape = [n, b, c], elems = elems t\<rparr>"
  using assms by (simp add: tf_reshape_def Let_def)

lemma xw_plus_b_unit:
  assumes "wf_out_weights w"
  shows "xw_plus_b m (W_yh w) (b_y w) = map (\<lambda>h. [dot h (col (W_yh w) 0) + b_y w ! 0]) m"
proof -
  from assms have "ncols (W_yh w) = 1"
    by (cases "W_yh w") (auto simp: wf_out_weights_def is_matrix_def ncols_def HIDDEN_DIM_def)
  moreover from assms obtain b0 where "b_y w = [b0]"
    by (cases "b_y w") (auto simp: wf_out_weights_def)
  ultimately show ?thesis by (simp add: xw_plus_b_def matmul_def)
qed

lemma outputs_value:
  assumes w: "wf_out_weights w"
    and hs: "\<forall>s \<in> set hs. is_matrix s (SEQ_LENGTH - 1) HIDDEN_DIM"
  shows "outputs w hs = Inr (map (map (\<lambda>h. [dot h (col (W_yh w) 0) + b_y w ! 0])) hs)"
proof -
  let ?f = "\<lambda>h. dot h (col (W_yh w) 0) + b_y w ! 0"
  have m: "is_matrix (concat hs) (length hs * (SEQ_LENGTH - 1)) HIDDEN_DIM"
    using hs by (rule is_matrix_concat)
  have len: "length (elems (from_tensor3 hs)) = (length hs * (SEQ_LENGTH - 1)) * HIDDEN_DIM"
    using length_concat_matrix[OF m] by (simp add: from_tensor3_def)
  have r1: "tf_reshape (from_tensor3 hs) [- 1, int HIDDEN_DIM]
      = Inr \<lparr>shape = [length hs * (SEQ_LENGTH - 1), HIDDEN_DIM], elems = concat (concat hs)\<rparr>"
    using tf_reshape_infer_first[OF _ len] by (simp add: HIDDEN_DIM_def from_tensor3_def)
  have tm: "to_matrix \<lparr>shape = [length hs * (SEQ_LENGTH - 1), HIDDEN_DIM], elems = concat (concat hs)\<rparr>
      = concat hs"
    using chunks_concat[OF m] by (simp add: to_matrix_def)
  have o2: "xw_plus_b (concat hs) (W_yh w) (b_y w) = map (\<lambda>h. [?f h]) (concat hs)"
    by (rule xw_plus_b_unit[OF w])
  have el: "elems (from_matrix (map (\<lambda>h. [?f h]) (concat hs))) = concat (map (map ?f) hs)"
  proof -
    have "concat (map (\<lambda>h. [?f h]) ys) = map ?f ys" for ys :: "vec list"
      by (induction ys) auto
    note h = this
    have "elems (from_matrix (map (\<lambda>h. [?f h]) (concat hs))) = concat (map (\<lambda>h. [?f h]) (concat hs))"
      by (simp add: from_matrix_def)
    also have "\<dots> = map ?f (concat hs)" by (rule h)
    also have "\<dots> = concat (map (map ?f) hs)" by (rule map_concat)
    finally show ?thesis .
  qed
  have m2: "is_matrix (map (map ?f) hs) (length hs) (SEQ_LENGTH - 1)"
    using hs by (auto simp: is_matrix_def)
  have len2: "length (elems (from_matrix (map (\<lambda>h. [?f h]) (concat hs))))
      = length hs * ((SEQ_LENGTH - 1) * 1)"
    unfolding el using length_concat_matrix[OF m2] by simp
  have r2: "tf_reshape (from_matrix (map (\<lambda>h. [?f h]) (concat hs))) [- 1, int (SEQ_LENGTH - 1), 1]
      = Inr \<lparr>shape = [length hs, SEQ_LENGTH - 1, 1], elems = concat (map (map ?f) hs)\<rparr>"
    using tf_reshape_infer_first3[OF _ _ len2] by (simp add: SEQ_LENGTH_def el)
  have t3: "to_tensor3 \<lparr>shape = [length hs, SEQ_LENGTH - 1, 1], elems = concat (map (map ?f) hs)\<rparr>
      = map (map (\<lambda>h. [?f h])) hs"
  proof -
    have "map (chunks (SEQ_LENGTH - 1) 1) (map (map ?f) hs) = map (map (\<lambda>h. [?f h])) hs"
      using hs by (auto simp: is_matrix_def chunks_singletons)
    then show ?thesis using chunks_concat[OF m2] by (simp add: to_tensor3_def)
  qed
  show ?thesis
    by (simp only: outputs_def r1 sum.case Let_def tm o2 r2 t3)
qed


subsection \<open>Shapes of the hidden vectors\<close>

lemma ncols_matrix: "is_matrix m r c \<Longrightarrow> 0 < r \<Longrightarrow> ncols m = c"
  by (cases m) (auto simp: is_matrix_def ncols_def)

lemma length_textbook_gate:
  assumes "is_matrix Wx 1 HIDDEN_DIM" "is_matrix Wh HIDDEN_DIM HIDDEN_DIM" "length b = HIDDEN_DIM"
  shows "length (textbook_gate act Wx Wh b x h) = HIDDEN_DIM"
  using assms ncols_matrix[of Wx 1 HIDDEN_DIM] ncols_matrix[of Wh HIDDEN_DIM HIDDEN_DIM]
  by (simp add: textbook_gate_def vadd_def weight_apply_def HIDDEN_DIM_def)

lemma rnn_textbook_h_gate:
  "rnn_textbook_h w x (Suc t) = textbook_gate sigmoid (W_hx w) (W_hh w) (b_h w) (x (Suc t)) (rnn_textbook_h w x t)"
  by (simp add: textbook_gate_def)

lemma length_rnn_textbook_h:
  assumes "wf_rnn_weights w"
  shows "length (rnn_textbook_h w x t) = HIDDEN_DIM"
proof (cases t)
  case 0 then show ?thesis by simp
next
  case (Suc t')
  show ?thesis unfolding Suc rnn_textbook_h_gate
    using assms by (intro length_textbook_gate) (simp_all add: wf_rnn_weights_def)
qed

lemma length_lstm_per_sequence:
  assumes "wf_lstm_weights w"
  shows "length (fst (lstm_per_sequence w x t)) = HIDDEN_DIM
       \<and> length (snd (lstm_per_sequence w x t)) = HIDDEN_DIM"
proof (induction t)
  case 0 then show ?case by simp
next
  case (Suc t)
  have g: "length (textbook_gate act (W_gx w) (W_gh w) (b_g w) y h) = HIDDEN_DIM"
          "length (textbook_gate act (W_ix w) (W_ih w) (b_i w) y h) = HIDDEN_DIM"
          "length (textbook_gate act (W_ox w) (W_oh w) (b_o w) y h) = HIDDEN_DIM" for act y h
    using assms by (simp_all add: length_textbook_gate wf_lstm_weights_def)
  show ?case using Suc g
    by (simp add: case_prod_beta Let_def vadd_def vmul_def)
qed

lemma wf_rnn_weights_example: "wf_rnn_weights rnn_weights_example"
  by (simp add: wf_rnn_weights_def wf_out_weights_def rnn_weights_example_def is_matrix_def HIDDEN_DIM_def)

lemma wf_seq_input_example: "wf_seq_input seq_input_example"
  by (simp add: wf_seq_input_def seq_input_example_def is_matrix_def SEQ_LENGTH_def)


subsection \<open>The vanilla RNN computes the textbook recurrence\<close>

text \<open>
  C6. For every batch fed to \<^verbatim>\<open>seq_input\<close> and weights of the declared shapes, the stacked
  \<^verbatim>\<open>hiddens\<close> tensor holds, for each sequence of the batch, the nine hidden states
  \<open>h(1), \<dots>, h(9)\<close> in time order, where \<open>h(0) = 0\<close> and
  \<open>h(t) = sigmoid(W_hx x(t) + W_hh h(t-1) + b_h)\<close> with \<open>x(t)\<close> the element \<open>t - 1\<close> of the
  sequence.
\<close>

theorem rnn_computes_textbook_recurrence:
  assumes "wf_rnn_weights w" and "wf_seq_input x"
  shows "rnn w x = map (\<lambda>s. map (\<lambda>t. rnn_textbook_h w (input_at s) t) [1..<SEQ_LENGTH]) x
       \<and> (\<forall>s. rnn_textbook_h w (input_at s) 0 = replicate HIDDEN_DIM 0)
       \<and> (\<forall>s t. rnn_textbook_h w (input_at s) (Suc t) =
             map sigmoid (vadd (vadd (weight_apply (W_hx w) (s ! t))
               (weight_apply (W_hh w) (rnn_textbook_h w (input_at s) t))) (b_h w)))"
proof -
  have "rnn w x = map (\<lambda>s. map (\<lambda>t. rnn_textbook_h w (input_at s) t) [1..<SEQ_LENGTH]) x"
    unfolding rnn_def rnn_hiddens_list_textbook
    by (rule stack_axis1_map) (simp add: SEQ_LENGTH_def)
  then show ?thesis by (simp add: input_at_def)
qed

theorem rnn_computes_textbook_recurrence_witness:
  "wf_rnn_weights rnn_weights_example \<and> wf_seq_input seq_input_example
   \<and> rnn rnn_weights_example seq_input_example
     = map (\<lambda>s. map (\<lambda>t. rnn_textbook_h rnn_weights_example (input_at s) t) [1..<SEQ_LENGTH])
         seq_input_example"
  using rnn_computes_textbook_recurrence[OF wf_rnn_weights_example wf_seq_input_example]
    wf_rnn_weights_example wf_seq_input_example
  by simp

subsection \<open>What the loops read and what the prediction is\<close>

lemma rnn_per_sequence:
  "rnn w x = map (\<lambda>s. map (\<lambda>t. rnn_textbook_h w (input_at s) t) [1..<SEQ_LENGTH]) x"
  unfolding rnn_def rnn_hiddens_list_textbook
  by (rule stack_axis1_map) (simp add: SEQ_LENGTH_def)

lemma rnn_textbook_h_cong:
  "(\<And>u. 1 \<le> u \<Longrightarrow> u \<le> t \<Longrightarrow> x u = x' u) \<Longrightarrow> rnn_textbook_h w x t = rnn_textbook_h w x' t"
  by (induction t) auto

lemma lstm_per_sequence_cong:
  "(\<And>u. 1 \<le> u \<Longrightarrow> u \<le> t \<Longrightarrow> x u = x' u) \<Longrightarrow> lstm_per_sequence w x t = lstm_per_sequence w x' t"
  by (induction t) auto

lemma input_at_butlast:
  "1 \<le> u \<Longrightarrow> u < length s \<Longrightarrow> input_at s u = input_at (butlast s) u"
  by (simp add: input_at_def nth_butlast)

lemma rnn_reads_butlast:
  assumes "wf_seq_input x"
  shows "rnn w x = map (\<lambda>s. map (\<lambda>t. rnn_textbook_h w (input_at s) t) [1..<SEQ_LENGTH]) (map butlast x)"
  unfolding rnn_per_sequence map_map o_def
proof (rule map_cong[OF refl], rule map_cong[OF refl])
  fix s t assume s: "s \<in> set x" and t: "t \<in> set [1..<SEQ_LENGTH]"
  from s assms have "length s = SEQ_LENGTH" by (simp add: wf_seq_input_def is_matrix_def)
  with t show "rnn_textbook_h w (input_at s) t = rnn_textbook_h w (input_at (butlast s)) t"
    by (intro rnn_textbook_h_cong input_at_butlast) auto
qed

lemma lstm_reads_butlast:
  assumes "wf_seq_input x"
  shows "lstm w x = map (\<lambda>s. map (\<lambda>t. snd (lstm_per_sequence w (input_at s) t)) [1..<SEQ_LENGTH]) (map butlast x)"
  unfolding lstm_batched map_map o_def
proof (rule map_cong[OF refl], rule map_cong[OF refl])
  fix s t assume s: "s \<in> set x" and t: "t \<in> set [1..<SEQ_LENGTH]"
  from s assms have "length s = SEQ_LENGTH" by (simp add: wf_seq_input_def is_matrix_def)
  with t have "lstm_per_sequence w (input_at s) t = lstm_per_sequence w (input_at (butlast s)) t"
    by (intro lstm_per_sequence_cong input_at_butlast) auto
  then show "snd (lstm_per_sequence w (input_at s) t) = snd (lstm_per_sequence w (input_at (butlast s)) t)"
    by simp
qed

lemma rnn_shape:
  assumes "wf_rnn_weights w"
  shows "\<forall>s \<in> set (rnn w x). is_matrix s (SEQ_LENGTH - 1) HIDDEN_DIM"
  using length_rnn_textbook_h[OF assms]
  by (auto simp: rnn_per_sequence is_matrix_def)

lemma lstm_shape:
  assumes "wf_lstm_weights w"
  shows "\<forall>s \<in> set (lstm w x). is_matrix s (SEQ_LENGTH - 1) HIDDEN_DIM"
  using length_lstm_per_sequence[OF assms]
  by (auto simp: lstm_batched is_matrix_def)

lemma predict_last:
  assumes "\<forall>s \<in> set hs. length s = SEQ_LENGTH - 1"
  shows "predict (map (map f) hs) = map (\<lambda>s. f (s ! 8)) hs"
  using assms by (auto simp: predict_def slice_axis1_def py_index_def SEQ_LENGTH_def)

lemma wf_lstm_weights_example: "wf_lstm_weights lstm_weights_example"
  by (simp add: wf_lstm_weights_def wf_out_weights_def lstm_weights_example_def is_matrix_def HIDDEN_DIM_def)

lemma sigmoid_0: "sigmoid 0 = 1 / 2"
  by (simp add: sigmoid_def)

lemma sigmoid_1_neq: "sigmoid 1 \<noteq> 1 / 2"
proof
  assume "sigmoid 1 = 1 / 2"
  then have "1 + exp (- 1 :: real) = 2" by (simp add: sigmoid_def field_simps)
  then have "exp (- 1 :: real) = exp 0" by simp
  then show False by simp
qed

lemma upt_4: "[0..<4] = [0, 1, 2, 3]"
  by (simp add: upt_rec)

lemma lstm_per_sequence_ignores_forget_weights:
  "lstm_per_sequence (w\<lparr>W_fx := a, W_fh := b, b_f := c\<rparr>) x t = lstm_per_sequence w x t"
  by (induction t) auto

lemma lstm_ignores_forget_weights:
  "lstm (w\<lparr>W_fx := a, W_fh := b, b_f := c\<rparr>) x = lstm w x"
  by (simp add: lstm_batched lstm_per_sequence_ignores_forget_weights)

lemma length_rnn_hiddens_list: "length (rnn_hiddens_list w x) = SEQ_LENGTH - 1"
  by (simp add: rnn_hiddens_list_textbook)

lemma length_lstm_lists:
  "length (fst (lstm_lists w x)) = SEQ_LENGTH - 1 \<and> length (snd (lstm_lists w x)) = SEQ_LENGTH - 1"
  by (simp add: lstm_lists_batched)

lemma last_label:
  assumes "wf_seq_input x"
  shows "slice_axis1 x (- 1) = map (\<lambda>s. s ! 9) x"
  using assms by (auto simp: slice_axis1_def py_index_def wf_seq_input_def is_matrix_def SEQ_LENGTH_def)

lemma rnn_predict_value:
  assumes "wf_rnn_weights w"
  shows "rnn_predict w x =
    Inr (map (\<lambda>s. [dot (rnn_textbook_h w (input_at s) 9) (col (W_yh w) 0) + b_y w ! 0]) x)"
proof -
  have ow: "wf_out_weights w" using assms by (simp add: wf_rnn_weights_def)
  have len: "\<forall>s \<in> set (rnn w x). length s = SEQ_LENGTH - 1"
    using rnn_shape[OF assms, of x] by (simp add: is_matrix_def)
  have "rnn_predict w x
      = Inr (predict (map (map (\<lambda>h. [dot h (col (W_yh w) 0) + b_y w ! 0])) (rnn w x)))"
    by (simp add: rnn_predict_def outputs_value[OF ow rnn_shape[OF assms]])
  also have "predict (map (map (\<lambda>h. [dot h (col (W_yh w) 0) + b_y w ! 0])) (rnn w x))
      = map (\<lambda>s. [dot (s ! 8) (col (W_yh w) 0) + b_y w ! 0]) (rnn w x)"
    by (rule predict_last[OF len])
  also have "\<dots> = map (\<lambda>s. [dot (rnn_textbook_h w (input_at s) 9) (col (W_yh w) 0) + b_y w ! 0]) x"
    by (simp add: rnn_per_sequence SEQ_LENGTH_def o_def del: upt_Suc)
  finally show ?thesis .
qed

lemma lstm_predict_value:
  assumes "wf_lstm_weights w"
  shows "lstm_predict w x =
    Inr (map (\<lambda>s. [dot (snd (lstm_per_sequence w (input_at s) 9)) (col (W_yh w) 0) + b_y w ! 0]) x)"
proof -
  have ow: "wf_out_weights w" using assms by (simp add: wf_lstm_weights_def)
  have len: "\<forall>s \<in> set (lstm w x). length s = SEQ_LENGTH - 1"
    using lstm_shape[OF assms, of x] by (simp add: is_matrix_def)
  have "lstm_predict w x
      = Inr (predict (map (map (\<lambda>h. [dot h (col (W_yh w) 0) + b_y w ! 0])) (lstm w x)))"
    by (simp add: lstm_predict_def outputs_value[OF ow lstm_shape[OF assms]])
  also have "predict (map (map (\<lambda>h. [dot h (col (W_yh w) 0) + b_y w ! 0])) (lstm w x))
      = map (\<lambda>s. [dot (s ! 8) (col (W_yh w) 0) + b_y w ! 0]) (lstm w x)"
    by (rule predict_last[OF len])
  also have "\<dots> = map (\<lambda>s. [dot (snd (lstm_per_sequence w (input_at s) 9)) (col (W_yh w) 0) + b_y w ! 0]) x"
    by (simp add: lstm_batched SEQ_LENGTH_def o_def del: upt_Suc lstm_per_sequence.simps)
  finally show ?thesis .
qed

lemma rnn_loss_value:
  assumes "wf_rnn_weights w" and "wf_seq_input x" and "rnn_predict w x = Inr p"
  shows "rnn_loss w x = Inr (mean_squared_error (map (\<lambda>s. s ! 9) x) p)"
proof -
  have ow: "wf_out_weights w" using assms(1) by (simp add: wf_rnn_weights_def)
  from assms(3) show ?thesis
    by (simp add: rnn_loss_def rnn_predict_def loss_def last_label[OF assms(2)]
        outputs_value[OF ow rnn_shape[OF assms(1)]])
qed

lemma lstm_loss_value:
  assumes "wf_lstm_weights w" and "wf_seq_input x" and "lstm_predict w x = Inr p"
  shows "lstm_loss w x = Inr (mean_squared_error (map (\<lambda>s. s ! 9) x) p)"
proof -
  have ow: "wf_out_weights w" using assms(1) by (simp add: wf_lstm_weights_def)
  from assms(3) show ?thesis
    by (simp add: lstm_loss_def lstm_predict_def loss_def last_label[OF assms(2)]
        outputs_value[OF ow lstm_shape[OF assms(1)]])
qed

lemma rnn_predict_reads_butlast:
  assumes "wf_rnn_weights w" and "wf_seq_input x" and "wf_seq_input x'"
    and "map butlast x = map butlast x'"
  shows "rnn_predict w x = rnn_predict w x'"
  by (simp add: rnn_predict_def rnn_reads_butlast[OF assms(2)] rnn_reads_butlast[OF assms(3)] assms(4))

lemma lstm_predict_reads_butlast:
  assumes "wf_lstm_weights w" and "wf_seq_input x" and "wf_seq_input x'"
    and "map butlast x = map butlast x'"
  shows "lstm_predict w x = lstm_predict w x'"
  by (simp add: lstm_predict_def lstm_reads_butlast[OF assms(2)] lstm_reads_butlast[OF assms(3)] assms(4))

lemma wf_seq_input_example': "wf_seq_input seq_input_example'"
  by (simp add: wf_seq_input_def seq_input_example'_def is_matrix_def SEQ_LENGTH_def)


subsection \<open>The forget gate of the LSTM\<close>

text \<open>
  C1. The markdown gives the forget gate as \<open>f(t) = sigmoid(W_fx x(t) + W_fh h(t-1) + b_f)\<close>.
  The code computes that preactivation and then overwrites \<^verbatim>\<open>f\<close> with the sigmoid of the
  candidate \<^verbatim>\<open>g\<close>. With all weights zero and the forget bias one, on a sequence of zeros,
  the preactivation the code computes for the first step's forget gate is 1 in every
  component, the forget gate it then uses is \<open>sigmoid (tanh 0) = 1/2\<close>, the textbook gate is
  \<open>sigmoid 1\<close>, and the two differ. For every input, the stacked hidden states do not
  depend on \<^verbatim>\<open>W_fx\<close>, \<^verbatim>\<open>W_fh\<close> and \<^verbatim>\<open>b_f\<close> at all.
\<close>

theorem lstm_forget_gate_at_failing_input:
  "pre_f (lstm_body lstm_weights_example (slice_axis1 zero_seq_input 0)
            (zeros 1 HIDDEN_DIM) (zeros 1 HIDDEN_DIM)) = [[1, 1, 1, 1]]
   \<and> gate_f (lstm_body lstm_weights_example (slice_axis1 zero_seq_input 0)
               (zeros 1 HIDDEN_DIM) (zeros 1 HIDDEN_DIM)) = [[1 / 2, 1 / 2, 1 / 2, 1 / 2]]
   \<and> map (\<lambda>s. textbook_gate sigmoid (W_fx lstm_weights_example) (W_fh lstm_weights_example)
               (b_f lstm_weights_example) (input_at s 1) (replicate HIDDEN_DIM 0)) zero_seq_input
       = [[sigmoid 1, sigmoid 1, sigmoid 1, sigmoid 1]]
   \<and> sigmoid 1 \<noteq> 1 / 2
   \<and> (\<forall>w a b c x. lstm (w\<lparr>W_fx := a, W_fh := b, b_f := c\<rparr>) x = lstm w x)"
proof -
  have "pre_f (lstm_body lstm_weights_example (slice_axis1 zero_seq_input 0)
            (zeros 1 HIDDEN_DIM) (zeros 1 HIDDEN_DIM)) = [[1, 1, 1, 1]]
   \<and> gate_f (lstm_body lstm_weights_example (slice_axis1 zero_seq_input 0)
               (zeros 1 HIDDEN_DIM) (zeros 1 HIDDEN_DIM)) = [[1 / 2, 1 / 2, 1 / 2, 1 / 2]]
   \<and> map (\<lambda>s. textbook_gate sigmoid (W_fx lstm_weights_example) (W_fh lstm_weights_example)
               (b_f lstm_weights_example) (input_at s 1) (replicate HIDDEN_DIM 0)) zero_seq_input
       = [[sigmoid 1, sigmoid 1, sigmoid 1, sigmoid 1]]
   \<and> sigmoid 1 \<noteq> 1 / 2"
    using sigmoid_1_neq
    by (simp add: lstm_body_def Let_def lstm_weights_example_def zero_seq_input_def slice_axis1_def
        py_index_def zeros_def HIDDEN_DIM_def tmap_def tadd_def matmul_def xw_plus_b_def ncols_def
        col_def dot_def upt_4 sigmoid_0 textbook_gate_def vadd_def weight_apply_def
        input_at_def numeral_eq_Suc)
  then show ?thesis using lstm_ignores_forget_weights by blast
qed


subsection \<open>Nine steps, the last element held out\<close>

text \<open>
  C10. Both loops append one hidden state per iteration and make \<open>SEQ_LENGTH - 1 = 9\<close>
  iterations. Two batches that agree on all but the final element of every sequence get
  the same prediction from either network, so the final element is never an input. The
  prediction is read from the hidden state after the ninth step, and the loss is the
  mean squared error between that prediction and the final element (index 9) of each
  sequence.
\<close>

theorem loops_consume_first_nine_elements:
  assumes "wf_rnn_weights w" and "wf_lstm_weights v"
    and "wf_seq_input x" and "wf_seq_input x'" and "map butlast x = map butlast x'"
  shows "length (rnn_hiddens_list w x) = SEQ_LENGTH - 1
       \<and> length (snd (lstm_lists v x)) = SEQ_LENGTH - 1
       \<and> SEQ_LENGTH - 1 = 9
       \<and> rnn_predict w x = rnn_predict w x'
       \<and> lstm_predict v x = lstm_predict v x'
       \<and> rnn_predict w x =
           Inr (map (\<lambda>s. [dot (rnn_textbook_h w (\<lambda>t. s ! (t - 1)) 9) (col (W_yh w) 0) + b_y w ! 0]) x)
       \<and> lstm_predict v x =
           Inr (map (\<lambda>s. [dot (snd (lstm_per_sequence v (\<lambda>t. s ! (t - 1)) 9)) (col (W_yh v) 0) + b_y v ! 0]) x)
       \<and> (\<forall>p. rnn_predict w x = Inr p \<longrightarrow>
             rnn_loss w x = Inr (mean_squared_error (map (\<lambda>s. s ! 9) x) p))
       \<and> (\<forall>p. lstm_predict v x = Inr p \<longrightarrow>
             lstm_loss v x = Inr (mean_squared_error (map (\<lambda>s. s ! 9) x) p))"
proof -
  have i: "input_at = (\<lambda>s t. s ! (t - 1))" by (intro ext) (simp add: input_at_def)
  show ?thesis
    using length_rnn_hiddens_list[of w x] length_lstm_lists[of v x]
      rnn_predict_reads_butlast[OF assms(1,3,4,5)] lstm_predict_reads_butlast[OF assms(2,3,4,5)]
      rnn_predict_value[OF assms(1), of x] lstm_predict_value[OF assms(2), of x]
      rnn_loss_value[OF assms(1,3)] lstm_loss_value[OF assms(2,3)]
    unfolding i by (simp add: SEQ_LENGTH_def del: rnn_textbook_h.simps lstm_per_sequence.simps)
qed

theorem loops_consume_first_nine_elements_witness:
  "wf_rnn_weights rnn_weights_example \<and> wf_lstm_weights lstm_weights_example
   \<and> wf_seq_input seq_input_example \<and> wf_seq_input seq_input_example'
   \<and> map butlast seq_input_example = map butlast seq_input_example'
   \<and> seq_input_example \<noteq> seq_input_example'
   \<and> rnn_predict rnn_weights_example seq_input_example
       = rnn_predict rnn_weights_example seq_input_example'
   \<and> lstm_predict lstm_weights_example seq_input_example
       = lstm_predict lstm_weights_example seq_input_example'"
proof -
  have b: "map butlast seq_input_example = map butlast seq_input_example'"
    by (simp add: seq_input_example_def seq_input_example'_def)
  have n: "seq_input_example \<noteq> seq_input_example'"
    by (simp add: seq_input_example_def seq_input_example'_def)
  show ?thesis
    using loops_consume_first_nine_elements[OF wf_rnn_weights_example wf_lstm_weights_example
        wf_seq_input_example wf_seq_input_example' b]
      wf_rnn_weights_example wf_lstm_weights_example wf_seq_input_example wf_seq_input_example' b n
    by simp
qed


section \<open>Properties of the AlexNet notebook\<close>

subsection \<open>Shapes through the convolutional stack\<close>

lemma ncols_concat:
  assumes "\<forall>row \<in> set img. is_matrix row w c" and "img \<noteq> []" and "0 < w"
  shows "ncols (concat img) = c"
proof -
  obtain r rs where img: "img = r # rs" using assms(2) by (cases img) auto
  with assms have r: "is_matrix r w c" by simp
  with assms(3) obtain px ps where "r = px # ps" by (cases r) (auto simp: is_matrix_def)
  with r img show ?thesis by (simp add: ncols_def is_matrix_def)
qed

lemma ncols_rows:
  assumes "\<forall>row \<in> set img. is_matrix row w c" and "img \<noteq> []"
  shows "ncols img = w"
  using assms by (cases img) (auto simp: ncols_def is_matrix_def)

lemma conv2d_shape:
  assumes "has_shape4 x n h w c" and "0 < h"
  shows "has_shape4 (conv2d x f (kh, kw) (sh, sw) p act v) n
           (out_size p h kh sh) (out_size p w kw sw) f"
  using assms
  by (auto simp: has_shape4_def conv2d_def Let_def is_matrix_def ncols_rows[where w=w and c=c])

lemma lrn_shape:
  assumes "has_shape4 x n h w c"
  shows "has_shape4 (lrn x r b a be) n h w c"
  using assms by (auto simp: has_shape4_def lrn_def is_matrix_def)

lemma max_pooling2d_shape:
  assumes "has_shape4 x n h w c" and "0 < h" and "0 < w"
  shows "has_shape4 (max_pooling2d x (ph, pw) (sh, sw)) n
           (out_size VALID h ph sh) (out_size VALID w pw sw) c"
  using assms
  by (auto simp: has_shape4_def max_pooling2d_def Let_def is_matrix_def
      ncols_rows[where w=w and c=c] ncols_concat[where w=w and c=c])

lemma conv1_shape:
  assumes "has_shape4 images n 224 224 3"
  shows "has_shape4 (conv1 v images) n 56 56 96"
  using conv2d_shape[where f=96 and kh=11 and kw=11 and sh=4 and sw=4 and p=SAME and act=relu and v="conv_layer_1 v", OF assms]
  by (simp add: conv1_def out_size_def)

lemma lrn1_shape:
  assumes "has_shape4 images n 224 224 3"
  shows "has_shape4 (lrn1 v images) n 56 56 96"
  unfolding lrn1_def by (rule lrn_shape[OF conv1_shape[OF assms]])

lemma maxpool1_shape:
  assumes "has_shape4 images n 224 224 3"
  shows "has_shape4 (maxpool1 v images) n 55 55 96"
  using max_pooling2d_shape[where ph=2 and pw=2 and sh=1 and sw=1, OF lrn1_shape[OF assms]]
  by (simp add: maxpool1_def out_size_def)

lemma conv2_shape:
  assumes "has_shape4 images n 224 224 3"
  shows "has_shape4 (conv2 v images) n 28 28 256"
  using conv2d_shape[where f=256 and kh=5 and kw=5 and sh=2 and sw=2 and p=SAME and act=relu and v="conv_layer_2 v", OF maxpool1_shape[OF assms]]
  by (simp add: conv2_def out_size_def)

lemma lrn2_shape:
  assumes "has_shape4 images n 224 224 3"
  shows "has_shape4 (lrn2 v images) n 28 28 256"
  unfolding lrn2_def by (rule lrn_shape[OF conv2_shape[OF assms]])

lemma maxpool2_shape:
  assumes "has_shape4 images n 224 224 3"
  shows "has_shape4 (maxpool2 v images) n 27 27 256"
  using max_pooling2d_shape[where ph=2 and pw=2 and sh=1 and sw=1, OF lrn2_shape[OF assms]]
  by (simp add: maxpool2_def out_size_def)

lemma conv3_shape:
  assumes "has_shape4 images n 224 224 3"
  shows "has_shape4 (conv3 v images) n 13 13 384"
  using conv2d_shape[where f=384 and kh=3 and kw=3 and sh=2 and sw=2 and p=VALID and act=relu and v="conv_layer_3 v", OF maxpool2_shape[OF assms]]
  by (simp add: conv3_def out_size_def)

lemma conv4_shape:
  assumes "has_shape4 images n 224 224 3"
  shows "has_shape4 (conv4 v images) n 13 13 384"
  using conv2d_shape[where f=384 and kh=3 and kw=3 and sh=1 and sw=1 and p=SAME and act=relu and v="conv_layer_4 v", OF conv3_shape[OF assms]]
  by (simp add: conv4_def out_size_def)

lemma conv5_shape:
  assumes "has_shape4 images n 224 224 3"
  shows "has_shape4 (conv5 v images) n 13 13 256"
  using conv2d_shape[where f=256 and kh=3 and kw=3 and sh=1 and sw=1 and p=SAME and act=relu and v="conv_layer_5 v", OF conv4_shape[OF assms]]
  by (simp add: conv5_def out_size_def)

lemma concat_concat: "concat (concat xsss) = concat (map concat xsss)"
  by (induction xsss) auto

lemma flat_image_length:
  assumes "length img = h" and "\<forall>row \<in> set img. is_matrix row w c"
  shows "length (concat (concat img)) = h * (w * c)"
proof -
  have "is_matrix (concat img) (length img * w) c"
    using assms(2) by (rule is_matrix_concat)
  from length_concat_matrix[OF this] assms(1) show ?thesis by (simp add: mult.assoc)
qed

lemma flatten_images:
  assumes "has_shape4 t n h w c" and "0 < h * (w * c)"
  shows "tf_reshape (from_tensor4 t) [- 1, int (h * (w * c))]
           = Inr \<lparr>shape = [n, h * (w * c)], elems = concat (map (\<lambda>img. concat (concat img)) t)\<rparr>
       \<and> is_matrix (map (\<lambda>img. concat (concat img)) t) n (h * (w * c))"
proof -
  have m: "is_matrix (map (\<lambda>img. concat (concat img)) t) n (h * (w * c))"
    using assms(1) by (auto simp: has_shape4_def is_matrix_def flat_image_length)
  have e: "elems (from_tensor4 t) = concat (map (\<lambda>img. concat (concat img)) t)"
    by (simp add: from_tensor4_def concat_concat map_concat o_def)
  have len: "length (elems (from_tensor4 t)) = n * (h * (w * c))"
    unfolding e by (rule length_concat_matrix[OF m])
  show ?thesis
    using tf_reshape_infer_first[OF assms(2) len] m by (simp add: e)
qed

lemma flatten_conv5_value:
  assumes "has_shape4 c5 n 13 13 256"
  shows "flatten_conv5 c5 = Inr (map (\<lambda>img. concat (concat img)) c5)
       \<and> is_matrix (map (\<lambda>img. concat (concat img)) c5) n 43264"
proof -
  have f: "tf_reshape (from_tensor4 c5) [- 1, 43264]
           = Inr \<lparr>shape = [n, 43264], elems = concat (map (\<lambda>img. concat (concat img)) c5)\<rparr>"
       and m: "is_matrix (map (\<lambda>img. concat (concat img)) c5) n 43264"
    using flatten_images[OF assms] by simp_all
  show ?thesis
    using chunks_concat[OF m] m by (simp add: flatten_conv5_def f to_matrix_def)
qed

lemma has_shape4_nth:
  assumes "has_shape4 x n h w c" and "b < n" and "i < h" and "j < w"
  shows "length (x ! b) = h" and "length (x ! b ! i) = w" and "length (x ! b ! i ! j) = c"
proof -
  from assms(1,2) have xb: "x ! b \<in> set x" by (simp add: has_shape4_def)
  with assms(1) show l1: "length (x ! b) = h" by (simp add: has_shape4_def)
  with assms(3) have xbi: "x ! b ! i \<in> set (x ! b)" by simp
  with assms(1) xb have m: "is_matrix (x ! b ! i) w c" by (simp add: has_shape4_def)
  then show l2: "length (x ! b ! i) = w" by (simp add: is_matrix_def)
  with assms(4) have "x ! b ! i ! j \<in> set (x ! b ! i)" by simp
  with m show "length (x ! b ! i ! j) = c" by (simp add: is_matrix_def)
qed

lemma has_shape4_img:
  assumes "has_shape4 x n h w c" and "b < n"
  shows "length x = n" and "length (x ! b) = h" and "\<forall>row \<in> set (x ! b). is_matrix row w c"
proof -
  from assms show "length x = n" by (simp add: has_shape4_def)
  with assms(2) have "x ! b \<in> set x" by simp
  with assms(1) show "length (x ! b) = h" and "\<forall>row \<in> set (x ! b). is_matrix row w c"
    by (simp_all add: has_shape4_def)
qed

lemma lrn_nth:
  assumes "has_shape4 x n h w c" and "b < n" and "i < h" and "j < w" and "d < c"
  shows "lrn x r b0 a be ! b ! i ! j ! d
       = x ! b ! i ! j ! d / (b0 + a * (\<Sum>k\<leftarrow>[d - r..<min c (d + r + 1)]. (x ! b ! i ! j ! k)\<^sup>2)) powr be"
  using has_shape4_nth[OF assms(1-4)] assms(1-5)
  by (simp add: lrn_def sqr_sum_def has_shape4_def)

lemma max_window_2x2:
  "Max (set (concat (map (\<lambda>di. map (\<lambda>dj. g di dj) [0..<2]) [0..<2])))
   = max (max (g 0 0) (g 0 (Suc 0))) (max (g (Suc 0) 0) (g (Suc 0) (Suc 0)))"
proof -
  have u2: "[0..<2] = [0, Suc 0]" by (simp add: upt_rec)
  show ?thesis unfolding u2 by (simp add: max.assoc)
qed

lemma max_pooling2d_nth:
  assumes "has_shape4 x n h w c" and "b < n" and "Suc i < h" and "Suc j < w" and "d < c"
  shows "max_pooling2d x (2, 2) (1, 1) ! b ! i ! j ! d
       = max (max (x ! b ! i ! j ! d) (x ! b ! i ! Suc j ! d))
             (max (x ! b ! Suc i ! j ! d) (x ! b ! Suc i ! Suc j ! d))"
proof -
  note l = has_shape4_img(2,1)[OF assms(1,2)]
  note rows = has_shape4_img(3)[OF assms(1,2)]
  have ne: "x ! b \<noteq> []" using l assms(3) by auto
  have nc: "ncols (x ! b) = w" by (rule ncols_rows[OF rows ne])
  have ncc: "ncols (concat (x ! b)) = c"
    using assms(4) by (intro ncols_concat[OF rows ne]) simp
  have "max_pooling2d x (2, 2) (1, 1) ! b ! i ! j ! d
      = Max (set (concat (map (\<lambda>di. map (\<lambda>dj. x ! b ! (i * 1 + di) ! (j * 1 + dj) ! d)
                                       [0..<2]) [0..<2])))"
    using assms(2-5) l
    by (simp add: max_pooling2d_def Let_def nc ncc out_size_def del: set_concat set_map set_upt)
  then show ?thesis by (simp only: max_window_2x2) simp
qed

lemma conv2d_nth:
  assumes "has_shape4 x n h w c" and "0 < h" and "b < n"
    and "i < out_size p h kh sh" and "j < out_size p w kw sw" and "d < f"
  shows "conv2d x f (kh, kw) (sh, sw) p act v ! b ! i ! j ! d
       = act (conv2d x f (kh, kw) (sh, sw) p (\<lambda>a. a) v ! b ! i ! j ! d)"
proof -
  note l = has_shape4_img(2,1)[OF assms(1,3)]
  note rows = has_shape4_img(3)[OF assms(1,3)]
  have ne: "x ! b \<noteq> []" using l assms(2) by auto
  have nc: "ncols (x ! b) = w" by (rule ncols_rows[OF rows ne])
  show ?thesis
    using assms(3-6) l by (simp add: conv2d_def Let_def nc)
qed

lemma images_example_shape: "has_shape4 images_example 1 224 224 3"
  by (simp add: images_example_def has_shape4_def is_matrix_def)


subsection \<open>Local response normalisation and pooling\<close>

text \<open>
  C7. For every batch of 224 by 224 by 3 images, in convolution layers 1 and 2 each entry of
  the convolution output is the relu of the convolution sum; each entry of the normalised
  tensor is that output divided by \<open>(2 + 1e-4 * s) ** 0.75\<close>, where \<open>s\<close> is the sum of
  squares over the channels at distance at most 5 (depth radius 5, bias 2, alpha 1e-4,
  beta 0.75); and each entry of the pooled tensor is the maximum of the 2 by 2 window of
  the normalised tensor starting at the same position, the window moving by one in each
  direction.
\<close>

theorem lrn_and_maxpool_after_conv_1_and_2:
  assumes "has_shape4 images n 224 224 3" and "b < n"
  shows "(\<forall>i<56. \<forall>j<56. \<forall>ch<96.
            conv1 v images ! b ! i ! j ! ch
              = relu (conv2d images 96 (11, 11) (4, 4) SAME (\<lambda>a. a) (conv_layer_1 v) ! b ! i ! j ! ch)
          \<and> lrn1 v images ! b ! i ! j ! ch
              = conv1 v images ! b ! i ! j ! ch
                / (2 + 1 / 10 ^ 4 * (\<Sum>k\<leftarrow>[ch - 5..<min 96 (ch + 5 + 1)].
                                        (conv1 v images ! b ! i ! j ! k)\<^sup>2)) powr 0.75)
       \<and> (\<forall>i<55. \<forall>j<55. \<forall>ch<96.
            maxpool1 v images ! b ! i ! j ! ch
              = max (max (lrn1 v images ! b ! i ! j ! ch) (lrn1 v images ! b ! i ! Suc j ! ch))
                    (max (lrn1 v images ! b ! Suc i ! j ! ch) (lrn1 v images ! b ! Suc i ! Suc j ! ch)))
       \<and> (\<forall>i<28. \<forall>j<28. \<forall>ch<256.
            conv2 v images ! b ! i ! j ! ch
              = relu (conv2d (maxpool1 v images) 256 (5, 5) (2, 2) SAME (\<lambda>a. a) (conv_layer_2 v)
                        ! b ! i ! j ! ch)
          \<and> lrn2 v images ! b ! i ! j ! ch
              = conv2 v images ! b ! i ! j ! ch
                / (2 + 1 / 10 ^ 4 * (\<Sum>k\<leftarrow>[ch - 5..<min 256 (ch + 5 + 1)].
                                        (conv2 v images ! b ! i ! j ! k)\<^sup>2)) powr 0.75)
       \<and> (\<forall>i<27. \<forall>j<27. \<forall>ch<256.
            maxpool2 v images ! b ! i ! j ! ch
              = max (max (lrn2 v images ! b ! i ! j ! ch) (lrn2 v images ! b ! i ! Suc j ! ch))
                    (max (lrn2 v images ! b ! Suc i ! j ! ch) (lrn2 v images ! b ! Suc i ! Suc j ! ch)))"
proof (intro conjI allI impI)
  fix i j ch :: nat assume "i < 56" "j < 56" "ch < 96"
  then show "conv1 v images ! b ! i ! j ! ch
      = relu (conv2d images 96 (11, 11) (4, 4) SAME (\<lambda>a. a) (conv_layer_1 v) ! b ! i ! j ! ch)"
    unfolding conv1_def using assms
    by (intro conv2d_nth[where h=224 and w=224]) (simp_all add: out_size_def)
next
  fix i j ch :: nat assume "i < 56" "j < 56" "ch < 96"
  then show "lrn1 v images ! b ! i ! j ! ch
      = conv1 v images ! b ! i ! j ! ch
        / (2 + 1 / 10 ^ 4 * (\<Sum>k\<leftarrow>[ch - 5..<min 96 (ch + 5 + 1)].
                                (conv1 v images ! b ! i ! j ! k)\<^sup>2)) powr 0.75"
    unfolding lrn1_def using conv1_shape[OF assms(1)] assms(2) by (intro lrn_nth)
next
  fix i j ch :: nat assume "i < 55" "j < 55" "ch < 96"
  then show "maxpool1 v images ! b ! i ! j ! ch
      = max (max (lrn1 v images ! b ! i ! j ! ch) (lrn1 v images ! b ! i ! Suc j ! ch))
            (max (lrn1 v images ! b ! Suc i ! j ! ch) (lrn1 v images ! b ! Suc i ! Suc j ! ch))"
    unfolding maxpool1_def using lrn1_shape[OF assms(1)] assms(2)
    by (intro max_pooling2d_nth[where h=56 and w=56]) simp_all
next
  fix i j ch :: nat assume "i < 28" "j < 28" "ch < 256"
  then show "conv2 v images ! b ! i ! j ! ch
      = relu (conv2d (maxpool1 v images) 256 (5, 5) (2, 2) SAME (\<lambda>a. a) (conv_layer_2 v)
                ! b ! i ! j ! ch)"
    unfolding conv2_def using maxpool1_shape[OF assms(1)] assms(2)
    by (intro conv2d_nth[where h=55 and w=55]) (simp_all add: out_size_def)
next
  fix i j ch :: nat assume "i < 28" "j < 28" "ch < 256"
  then show "lrn2 v images ! b ! i ! j ! ch
      = conv2 v images ! b ! i ! j ! ch
        / (2 + 1 / 10 ^ 4 * (\<Sum>k\<leftarrow>[ch - 5..<min 256 (ch + 5 + 1)].
                                (conv2 v images ! b ! i ! j ! k)\<^sup>2)) powr 0.75"
    unfolding lrn2_def using conv2_shape[OF assms(1)] assms(2) by (intro lrn_nth)
next
  fix i j ch :: nat assume "i < 27" "j < 27" "ch < 256"
  then show "maxpool2 v images ! b ! i ! j ! ch
      = max (max (lrn2 v images ! b ! i ! j ! ch) (lrn2 v images ! b ! i ! Suc j ! ch))
            (max (lrn2 v images ! b ! Suc i ! j ! ch) (lrn2 v images ! b ! Suc i ! Suc j ! ch))"
    unfolding maxpool2_def using lrn2_shape[OF assms(1)] assms(2)
    by (intro max_pooling2d_nth[where h=28 and w=28]) simp_all
qed

lemma wf_alexnet_vars_example: "wf_alexnet_vars alexnet_vars_example"
  by (simp add: wf_alexnet_vars_def alexnet_vars_example_def wf_conv_vars_def wf_dense_vars_def
      conv_vars_zero_def dense_vars_zero_def is_matrix_def)

theorem lrn_and_maxpool_after_conv_1_and_2_witness:
  "has_shape4 images_example 1 224 224 3 \<and> (0::nat) < 1
   \<and> maxpool1 alexnet_vars_example images_example ! 0 ! 0 ! 0 ! 0
       = max (max (lrn1 alexnet_vars_example images_example ! 0 ! 0 ! 0 ! 0)
                  (lrn1 alexnet_vars_example images_example ! 0 ! 0 ! Suc 0 ! 0))
             (max (lrn1 alexnet_vars_example images_example ! 0 ! Suc 0 ! 0 ! 0)
                  (lrn1 alexnet_vars_example images_example ! 0 ! Suc 0 ! Suc 0 ! 0))
   \<and> lrn2 alexnet_vars_example images_example ! 0 ! 0 ! 0 ! 0
       = conv2 alexnet_vars_example images_example ! 0 ! 0 ! 0 ! 0
         / (2 + 1 / 10 ^ 4 * (\<Sum>k\<leftarrow>[0 - 5..<min 256 (0 + 5 + 1)].
               (conv2 alexnet_vars_example images_example ! 0 ! 0 ! 0 ! k)\<^sup>2)) powr 0.75"
proof -
  have z: "(0::nat) < 1" by simp
  note t = lrn_and_maxpool_after_conv_1_and_2[OF images_example_shape z, of alexnet_vars_example]
  have a: "(0::nat) < 55" "(0::nat) < 96" "(0::nat) < 28" "(0::nat) < 256" by simp_all
  from t a show ?thesis using images_example_shape by blast
qed

(* C3 *)


subsection \<open>Prediction, accuracy and the output layer\<close>

lemma argmax_list_max:
  "xs \<noteq> [] \<Longrightarrow> argmax_list xs < length xs \<and> (\<forall>i<length xs. xs ! i \<le> xs ! argmax_list xs)"
proof (induction xs rule: argmax_list.induct)
  case 1 then show ?case by simp
next
  case (2 x) then show ?case by simp
next
  case (3 x y ys)
  let ?k = "argmax_list (y # ys)"
  from 3 have k: "?k < length (y # ys)" and m: "\<forall>i<length (y # ys). (y # ys) ! i \<le> (y # ys) ! ?k"
    by simp_all
  show ?case
  proof (cases "x < (y # ys) ! ?k")
    case True
    then have a: "argmax_list (x # y # ys) = Suc ?k" by (simp add: Let_def)
    have "(x # y # ys) ! i \<le> (x # y # ys) ! Suc ?k" if "i < length (x # y # ys)" for i
      using that True m by (cases i) auto
    with k a show ?thesis by simp
  next
    case False
    then have a: "argmax_list (x # y # ys) = 0" by (simp add: Let_def)
    have "(x # y # ys) ! i \<le> x" if "i < length (x # y # ys)" for i
    proof (cases i)
      case 0 then show ?thesis by simp
    next
      case (Suc i')
      with that m have "(y # ys) ! i' \<le> (y # ys) ! ?k" by simp
      with False Suc show ?thesis by simp
    qed
    with a show ?thesis by simp
  qed
qed

lemma prediction_value:
  assumes "is_matrix s n c" and "0 < n"
  shows "prediction s = Inr (map (\<lambda>j. int (argmax_list (col s j))) [0..<c])"
  using assms ncols_matrix[OF assms]
  by (auto simp: prediction_def argmax_axis0_def is_matrix_def)

lemma prediction_is_batch_argmax:
  assumes "is_matrix s n c" and "0 < n" and "j < c"
  shows "argmax_list (col s j) < n \<and> (\<forall>i<n. s ! i ! j \<le> s ! argmax_list (col s j) ! j)"
proof -
  have l: "length (col s j) = n" using assms(1) by (simp add: col_def is_matrix_def)
  then have ne: "col s j \<noteq> []" using assms(2) by auto
  from argmax_list_max[OF ne] l
  have k: "argmax_list (col s j) < n" and m: "\<forall>i<n. col s j ! i \<le> col s j ! argmax_list (col s j)"
    by simp_all
  have "col s j ! i = s ! i ! j" if "i < n" for i
    using that assms(1) by (simp add: col_def is_matrix_def)
  with k m show ?thesis by simp
qed


text \<open>
  C3. \<^verbatim>\<open>prediction\<close> takes the argmax along axis 0. For every batch of \<open>n \<ge> 1\<close> rows of 1000
  scores it is a vector of length 1000 whose entry \<open>j\<close> is the index of a batch element
  with the largest score for class \<open>j\<close>, so its entries are batch indices below \<open>n\<close>, not
  classes. \<^verbatim>\<open>accuracy\<close> is the mean of the broadcast comparison of that vector with the
  labels: elementwise for 1000 labels, against the single label for one label, and
  refused by the framework for any other number of labels.
\<close>

theorem prediction_is_argmax_over_batch:
  assumes "is_matrix s n 1000" and "0 < n"
  shows "\<exists>p. prediction s = Inr p \<and> length p = 1000
           \<and> (\<forall>j<1000. 0 \<le> p ! j \<and> p ! j < int n
                  \<and> (\<forall>i<n. s ! i ! j \<le> s ! nat (p ! j) ! j))
           \<and> accuracy s labels = map_sum id (\<lambda>eq. reduce_mean (to_float eq)) (tf_equal p labels)
           \<and> (length labels = 1000 \<longrightarrow>
                 accuracy s labels
                   = Inr (sum_list (map2 (\<lambda>a l. if a = l then 1 else 0) p labels) / 1000))
           \<and> (length labels = 1 \<longrightarrow>
                 accuracy s labels
                   = Inr (sum_list (map (\<lambda>a. if a = hd labels then 1 else 0) p) / 1000))
           \<and> (length labels \<noteq> 1000 \<and> length labels \<noteq> 1 \<longrightarrow>
                 accuracy s labels = Inl InvalidArgument)"
proof -
  let ?p = "map (\<lambda>j. int (argmax_list (col s j))) [0..<1000]"
  have p: "prediction s = Inr ?p" by (rule prediction_value[OF assms])
  have len: "length ?p = 1000" by simp
  have arg: "\<forall>j<1000. 0 \<le> ?p ! j \<and> ?p ! j < int n \<and> (\<forall>i<n. s ! i ! j \<le> s ! nat (?p ! j) ! j)"
    using prediction_is_batch_argmax[OF assms] by simp
  have acc: "accuracy s labels = map_sum id (\<lambda>eq. reduce_mean (to_float eq)) (tf_equal ?p labels)"
    by (simp add: accuracy_def p)
  have a1: "length labels = 1000 \<longrightarrow> accuracy s labels
      = Inr (sum_list (map2 (\<lambda>a l. if a = l then 1 else 0) ?p labels) / 1000)"
    unfolding acc by (simp add: tf_equal_def reduce_mean_def to_float_def o_def split_def del: upt_Suc)
  have a2: "length labels = 1 \<longrightarrow> accuracy s labels
      = Inr (sum_list (map (\<lambda>a. if a = hd labels then 1 else 0) ?p) / 1000)"
    unfolding acc by (simp add: tf_equal_def reduce_mean_def to_float_def o_def del: upt_Suc)
  have a3: "length labels \<noteq> 1000 \<and> length labels \<noteq> 1 \<longrightarrow> accuracy s labels = Inl InvalidArgument"
    unfolding acc by (simp add: tf_equal_def del: upt_Suc)
  show ?thesis
    using p len arg acc a1 a2 a3 by (intro exI[of _ ?p]) blast
qed

lemma scores_example_shape: "is_matrix scores_example 2 1000"
  by (simp add: scores_example_def is_matrix_def)

theorem prediction_is_argmax_over_batch_witness:
  "is_matrix scores_example 2 1000 \<and> (0::nat) < 2
   \<and> (\<exists>p. prediction scores_example = Inr p \<and> length p = 1000
          \<and> accuracy scores_example labels_example = Inl InvalidArgument)"
proof -
  have z: "(0::nat) < 2" by simp
  have l: "length labels_example \<noteq> 1000 \<and> length labels_example \<noteq> 1"
    by (simp add: labels_example_def)
  from prediction_is_argmax_over_batch[OF scores_example_shape z, of labels_example] l
  show ?thesis using scores_example_shape z by blast
qed


(* C4 *)

lemma dense_nth:
  assumes "wf_dense_vars v n_in units" and "0 < n_in" and "i < length x" and "j < units"
  shows "dense x act v ! i ! j = act (dot (x ! i) (col (dkernel v) j) + dbias v ! j)"
proof -
  have nc: "ncols (dkernel v) = units"
    using assms(1,2) by (intro ncols_matrix[where r=n_in]) (simp_all add: wf_dense_vars_def)
  have lb: "length (dbias v) = units" using assms(1) by (simp add: wf_dense_vars_def)
  show ?thesis
    using assms(3,4) by (simp add: dense_def tmap_def xw_plus_b_def matmul_def nc lb)
qed

lemma dense_shape:
  assumes "wf_dense_vars v n_in units" and "0 < n_in"
  shows "is_matrix (dense x act v) (length x) units"
proof -
  have nc: "ncols (dkernel v) = units"
    using assms(1,2) by (intro ncols_matrix[where r=n_in]) (simp_all add: wf_dense_vars_def)
  have lb: "length (dbias v) = units" using assms(1) by (simp add: wf_dense_vars_def)
  show ?thesis
    by (auto simp: dense_def tmap_def xw_plus_b_def matmul_def nc lb is_matrix_def)
qed

lemma softmax_normalise_sums_to_one:
  assumes "z \<noteq> []"
  shows "sum_list (softmax_normalise z) = 1"
proof -
  let ?d = "\<Sum>b\<leftarrow>z. exp b"
  have pos: "0 < ?d"
    using assms by (induction z rule: list_nonempty_induct) (auto intro: add_pos_pos)
  have "sum_list (softmax_normalise z) = (\<Sum>a\<leftarrow>z. exp a / ?d)"
    by (simp add: softmax_normalise_def o_def)
  also have "\<dots> = (\<Sum>a\<leftarrow>z. exp a) / ?d"
    using sum_list_mult_const[of exp "inverse ?d" z] by (simp add: divide_inverse)
  also have "\<dots> = 1" using pos by simp
  finally show ?thesis .
qed

lemma dense2_example_shape: "is_matrix dense2_example 1 4096"
  by (simp add: dense2_example_def is_matrix_def)

lemma dot_zero_left: "dot (replicate n 0) ys = 0"
  unfolding dot_def by (induction n arbitrary: ys) (auto simp: zip_Cons1 split: list.splits)

lemma softmax_example_row: "softmax alexnet_vars_example dense2_example ! 0 = replicate 1000 0"
proof (rule nth_equalityI)
  have wf: "wf_dense_vars (softmax_layer alexnet_vars_example) 4096 1000"
    using wf_alexnet_vars_example by (simp add: wf_alexnet_vars_def)
  have m: "is_matrix (softmax alexnet_vars_example dense2_example) (length dense2_example) 1000"
    unfolding softmax_def by (rule dense_shape[OF wf]) simp
  then show "length (softmax alexnet_vars_example dense2_example ! 0) = length (replicate 1000 (0::real))"
    by (simp add: is_matrix_def dense2_example_def)
  fix j assume "j < length (softmax alexnet_vars_example dense2_example ! 0)"
  with m have j: "j < 1000" by (simp add: is_matrix_def dense2_example_def)
  have "softmax alexnet_vars_example dense2_example ! 0 ! j
      = relu (dot (dense2_example ! 0) (col (dkernel (softmax_layer alexnet_vars_example)) j)
              + dbias (softmax_layer alexnet_vars_example) ! j)"
    unfolding softmax_def using j by (intro dense_nth[OF wf]) (simp_all add: dense2_example_def)
  also have "\<dots> = 0"
    using j by (simp add: dense2_example_def dot_zero_left alexnet_vars_example_def
        dense_vars_zero_def relu_def)
  finally show "softmax alexnet_vars_example dense2_example ! 0 ! j = replicate 1000 0 ! j"
    using j by simp
qed


text \<open>
  C4. The layer named \<^verbatim>\<open>softmax\<close> is a dense layer with relu: every entry is the maximum
  of 0 and an affine function of the row of \<^verbatim>\<open>dense2\<close>, hence non-negative; there are
  weights and an input whose output row does not sum to 1 (it sums to 0). The softmax
  normalisation is inside the loss: the loss is the mean negative logarithm of the
  normalised score of each label, and each normalised row does sum to 1.
\<close>

theorem softmax_layer_is_relu_not_normalised:
  assumes "wf_alexnet_vars v" and "is_matrix d2 n 4096"
  shows "is_matrix (softmax v d2) n 1000
       \<and> (\<forall>i<n. \<forall>j<1000.
             softmax v d2 ! i ! j
               = max (dot (d2 ! i) (col (dkernel (softmax_layer v)) j) + dbias (softmax_layer v) ! j) 0
             \<and> 0 \<le> softmax v d2 ! i ! j)
       \<and> (\<exists>v' d2'. wf_alexnet_vars v' \<and> is_matrix d2' 1 4096 \<and> sum_list (softmax v' d2' ! 0) \<noteq> 1)
       \<and> (\<forall>labels l. alexnet_loss labels (softmax v d2) = Inr l \<longrightarrow>
             l = sum_list (map2 (\<lambda>c z. - ln (softmax_normalise z ! nat c)) labels (softmax v d2)) / real n)
       \<and> (\<forall>z \<in> set (softmax v d2). sum_list (softmax_normalise z) = 1)"
proof -
  have wf: "wf_dense_vars (softmax_layer v) 4096 1000"
    using assms(1) by (simp add: wf_alexnet_vars_def)
  have n: "length d2 = n" using assms(2) by (simp add: is_matrix_def)
  have m: "is_matrix (softmax v d2) n 1000"
    unfolding softmax_def using dense_shape[OF wf, of d2 relu] by (simp add: n)
  have e: "\<forall>i<n. \<forall>j<1000.
             softmax v d2 ! i ! j
               = max (dot (d2 ! i) (col (dkernel (softmax_layer v)) j) + dbias (softmax_layer v) ! j) 0
             \<and> 0 \<le> softmax v d2 ! i ! j"
    unfolding softmax_def using dense_nth[OF wf, of _ d2 _ relu] by (simp add: n relu_def)
  have x: "\<exists>v' d2'. wf_alexnet_vars v' \<and> is_matrix d2' 1 4096 \<and> sum_list (softmax v' d2' ! 0) \<noteq> 1"
    using wf_alexnet_vars_example dense2_example_shape softmax_example_row
    by (intro exI[of _ alexnet_vars_example] exI[of _ dense2_example]) (simp add: sum_list_replicate)
  have l: "\<forall>labels l. alexnet_loss labels (softmax v d2) = Inr l \<longrightarrow>
             l = sum_list (map2 (\<lambda>c z. - ln (softmax_normalise z ! nat c)) labels (softmax v d2)) / real n"
    using m by (auto simp: alexnet_loss_def sparse_softmax_cross_entropy_def Let_def is_matrix_def
        split: if_splits)
  have s: "\<forall>z \<in> set (softmax v d2). sum_list (softmax_normalise z) = 1"
  proof
    fix z assume "z \<in> set (softmax v d2)"
    with m have "length z = 1000" by (simp add: is_matrix_def)
    then have "z \<noteq> []" by auto
    then show "sum_list (softmax_normalise z) = 1" by (rule softmax_normalise_sums_to_one)
  qed
  from m e x l s show ?thesis by blast
qed

theorem softmax_layer_is_relu_not_normalised_witness:
  "wf_alexnet_vars alexnet_vars_example \<and> is_matrix dense2_example 1 4096
   \<and> is_matrix (softmax alexnet_vars_example dense2_example) 1 1000
   \<and> 0 \<le> softmax alexnet_vars_example dense2_example ! 0 ! 0
   \<and> sum_list (softmax alexnet_vars_example dense2_example ! 0) \<noteq> 1"
proof -
  have z: "(0::nat) < 1" "(0::nat) < 1000" by simp_all
  from softmax_layer_is_relu_not_normalised[OF wf_alexnet_vars_example dense2_example_shape] z
  show ?thesis
    using wf_alexnet_vars_example dense2_example_shape softmax_example_row
    by (simp add: sum_list_replicate)
qed



section \<open>Shapes\<close>

subsection \<open>Declared shapes\<close>

lemma lstm_states_batched:
  "lstm_states w x = map (\<lambda>s. map (\<lambda>t. fst (lstm_per_sequence w (input_at s) t)) [1..<SEQ_LENGTH]) x"
  unfolding lstm_states_def lstm_lists_batched fst_conv
  by (rule stack_axis1_map) (simp add: SEQ_LENGTH_def)

lemma lstm_states_shape:
  assumes "wf_lstm_weights w"
  shows "\<forall>s \<in> set (lstm_states w x). is_matrix s (SEQ_LENGTH - 1) HIDDEN_DIM"
  using length_lstm_per_sequence[OF assms]
  by (auto simp: lstm_states_batched is_matrix_def)

lemma feedable_image_batch:
  "feedable image_batch_placeholder dims \<longleftrightarrow> (\<exists>n. dims = [n, 224, 224, 3])"
  by (auto simp: feedable_def image_batch_placeholder_def list_all2_Cons2)

lemma feedable_label_batch:
  "feedable label_batch_placeholder dims \<longleftrightarrow> (\<exists>n. dims = [n])"
  by (auto simp: feedable_def label_batch_placeholder_def list_all2_Cons2)

lemma feedable_seq_input:
  "feedable seq_input_placeholder dims \<longleftrightarrow> (\<exists>n. dims = [n, 10, 1])"
  by (auto simp: feedable_def seq_input_placeholder_def list_all2_Cons2 SEQ_LENGTH_def)


text \<open>
  C5. The image placeholder is float32 of shape \<open>[None, 224, 224, 3]\<close> and accepts exactly the
  batches of 224 by 224 by 3 images; the label placeholder is int32 of shape \<open>[None]\<close>, one
  label per image; \<open>HIDDEN_DIM\<close> is 4, and the initial and every later hidden vector of the
  RNN and hidden and state vector of the LSTM has 4 components.
\<close>

theorem tensor_shapes_of_the_architectures:
  "ph_dtype image_batch_placeholder = Float32
   \<and> ph_shape image_batch_placeholder = [None, Some 224, Some 224, Some 3]
   \<and> (\<forall>dims. feedable image_batch_placeholder dims \<longleftrightarrow> (\<exists>n. dims = [n, 224, 224, 3]))
   \<and> ph_dtype label_batch_placeholder = Int32
   \<and> ph_shape label_batch_placeholder = [None]
   \<and> (\<forall>dims. feedable label_batch_placeholder dims \<longleftrightarrow> (\<exists>n. dims = [n]))
   \<and> HIDDEN_DIM = 4
   \<and> (\<forall>n. \<forall>h \<in> set (zeros n HIDDEN_DIM). length h = 4)
   \<and> (\<forall>w x. wf_rnn_weights w \<longrightarrow> (\<forall>s \<in> set (rnn w x). \<forall>h \<in> set s. length h = 4))
   \<and> (\<forall>w x. wf_lstm_weights w \<longrightarrow>
          (\<forall>s \<in> set (lstm w x). \<forall>h \<in> set s. length h = 4)
        \<and> (\<forall>s \<in> set (lstm_states w x). \<forall>h \<in> set s. length h = 4))"
proof -
  have r: "\<forall>w x. wf_rnn_weights w \<longrightarrow> (\<forall>s \<in> set (rnn w x). \<forall>h \<in> set s. length h = 4)"
    using rnn_shape by (auto simp: is_matrix_def HIDDEN_DIM_def)
  have l: "\<forall>w x. wf_lstm_weights w \<longrightarrow>
          (\<forall>s \<in> set (lstm w x). \<forall>h \<in> set s. length h = 4)
        \<and> (\<forall>s \<in> set (lstm_states w x). \<forall>h \<in> set s. length h = 4)"
    using lstm_shape lstm_states_shape by (auto simp: is_matrix_def HIDDEN_DIM_def)
  have z: "\<forall>n. \<forall>h \<in> set (zeros n HIDDEN_DIM). length h = 4"
    by (simp add: zeros_def HIDDEN_DIM_def)
  have p: "ph_dtype image_batch_placeholder = Float32"
      "ph_shape image_batch_placeholder = [None, Some 224, Some 224, Some 3]"
      "ph_dtype label_batch_placeholder = Int32"
      "ph_shape label_batch_placeholder = [None]"
      "HIDDEN_DIM = 4"
    by (simp_all add: image_batch_placeholder_def label_batch_placeholder_def HIDDEN_DIM_def)
  from p z r l feedable_image_batch feedable_label_batch show ?thesis by blast
qed

theorem tensor_shapes_of_the_architectures_witness:
  "wf_rnn_weights rnn_weights_example \<and> wf_lstm_weights lstm_weights_example
   \<and> feedable image_batch_placeholder [1, 224, 224, 3]
   \<and> feedable label_batch_placeholder [1]
   \<and> list_all (list_all (\<lambda>h. length h = 4)) (rnn rnn_weights_example seq_input_example)
   \<and> list_all (list_all (\<lambda>h. length h = 4)) (lstm lstm_weights_example seq_input_example)
   \<and> list_all (list_all (\<lambda>h. length h = 4)) (lstm_states lstm_weights_example seq_input_example)"
  using tensor_shapes_of_the_architectures wf_rnn_weights_example wf_lstm_weights_example
  unfolding list_all_iff by blast



subsection \<open>Reshape boundaries\<close>

lemma prod_list_inferred:
  "prod_list (map (\<lambda>d. if d = - 1 then q else nat d) dims)
   = q ^ length (filter (\<lambda>d. d = - 1) dims) * prod_list (map nat (filter (\<lambda>d. d \<noteq> - 1) dims))"
  by (induction dims) auto

lemma tf_reshape_keeps_elements:
  assumes "tf_reshape t dims = Inr t'"
  shows "elems t' = elems t \<and> prod_list (shape t') = length (elems t)"
proof -
  let ?known = "prod_list (map nat (filter (\<lambda>d. d \<noteq> - 1) dims))"
  let ?unknown = "length (filter (\<lambda>d. d = - 1) dims)"
  let ?total = "length (elems t)"
  from assms have u: "?unknown \<le> 1"
    by (auto simp: tf_reshape_def Let_def split: if_splits)
  show ?thesis
  proof (cases "?unknown = 0")
    case True
    then have "filter (\<lambda>d. d \<noteq> - 1) dims = dims"
      by (auto simp: filter_empty_conv filter_id_conv)
    with assms True show ?thesis
      by (auto simp: tf_reshape_def Let_def split: if_splits)
  next
    case False
    with u have one: "?unknown = 1" by (cases "filter (\<lambda>d. d = - 1) dims") auto
    with assms have k: "?known \<noteq> 0" "?total mod ?known = 0"
      and t': "t' = \<lparr>shape = map (\<lambda>d. if d = - 1 then ?total div ?known else nat d) dims,
                      elems = elems t\<rparr>"
      by (auto simp: tf_reshape_def Let_def split: if_splits)
    have "prod_list (shape t') = (?total div ?known) * ?known"
      unfolding t' by (simp add: prod_list_inferred one)
    also have "\<dots> = ?total" using k by (simp add: mod_0_imp_dvd)
    finally show ?thesis by (simp add: t')
  qed
qed

lemma reshape_hiddens:
  assumes "\<forall>s \<in> set hs. is_matrix s (SEQ_LENGTH - 1) HIDDEN_DIM"
  shows "tf_reshape (from_tensor3 hs) [- 1, int HIDDEN_DIM]
       = Inr \<lparr>shape = [length hs * 9, 4], elems = elems (from_tensor3 hs)\<rparr>
     \<and> length (elems (from_tensor3 hs)) = length hs * 9 * 4"
proof -
  have m: "is_matrix (concat hs) (length hs * (SEQ_LENGTH - 1)) HIDDEN_DIM"
    using assms by (rule is_matrix_concat)
  have len: "length (elems (from_tensor3 hs)) = (length hs * 9) * HIDDEN_DIM"
    using length_concat_matrix[OF m] by (simp add: from_tensor3_def SEQ_LENGTH_def)
  show ?thesis
    using tf_reshape_infer_first[OF _ len] len by (simp add: HIDDEN_DIM_def)
qed

lemma outputs_shape:
  assumes "wf_out_weights w" and "\<forall>s \<in> set hs. is_matrix s (SEQ_LENGTH - 1) HIDDEN_DIM"
  shows "\<exists>ys. outputs w hs = Inr ys \<and> length ys = length hs \<and> (\<forall>s \<in> set ys. is_matrix s 9 1)
            \<and> length (concat (concat ys)) = length (concat hs)"
proof -
  let ?ys = "map (map (\<lambda>h. [dot h (col (W_yh w) 0) + b_y w ! 0])) hs"
  have m: "\<forall>s \<in> set ?ys. is_matrix s 9 1"
    using assms(2) by (auto simp: is_matrix_def SEQ_LENGTH_def)
  have "is_matrix (concat ?ys) (length ?ys * 9) 1" using m by (rule is_matrix_concat)
  from length_concat_matrix[OF this] have c1: "length (concat (concat ?ys)) = length hs * 9" by simp
  have "is_matrix hs (length hs) 9" using assms(2) by (auto simp: is_matrix_def SEQ_LENGTH_def)
  from length_concat_matrix[OF this] have c2: "length (concat hs) = length hs * 9" .
  show ?thesis
    using outputs_value[OF assms] m c1 c2 by (intro exI[of _ ?ys]) simp
qed


lemma dropout_shape:
  assumes "is_matrix x n c" and "is_matrix keep n c"
  shows "is_matrix (dropout x rate keep) n c"
proof -
  have "length (map2 f row k) = c" if "(row, k) \<in> set (zip x keep)" for f :: "real \<Rightarrow> bool \<Rightarrow> real" and row k
    using set_zip_leftD[OF that] set_zip_rightD[OF that] assms by (simp add: is_matrix_def)
  then show ?thesis using assms by (auto simp: dropout_def is_matrix_def)
qed

lemma alexnet_forward_shape:
  assumes "has_shape4 images n 224 224 3" and "wf_alexnet_vars v"
    and "is_matrix keep1 n 4096" and "is_matrix keep2 n 4096"
  shows "\<exists>s. alexnet v keep1 keep2 images = Inr s \<and> is_matrix s n 1000"
proof -
  let ?flat = "map (\<lambda>img. concat (concat img)) (conv5 v images)"
  note f = flatten_conv5_value[OF conv5_shape[OF assms(1), of v]]
  from f have lf: "length ?flat = n" by (simp add: is_matrix_def)
  have wf: "wf_dense_vars (fc_layer_1 v) 43264 4096" "wf_dense_vars (fc_layer_2 v) 4096 4096"
      "wf_dense_vars (softmax_layer v) 4096 1000"
    using assms(2) by (simp_all add: wf_alexnet_vars_def)
  have d1: "is_matrix (dense1 v keep1 ?flat) n 4096"
    unfolding dense1_def using dense_shape[OF wf(1), of ?flat relu] lf assms(3)
    by (intro dropout_shape) simp_all
  then have l1: "length (dense1 v keep1 ?flat) = n" by (simp add: is_matrix_def)
  have d2: "is_matrix (dense2 v keep2 (dense1 v keep1 ?flat)) n 4096"
    unfolding dense2_def using dense_shape[OF wf(2), of "dense1 v keep1 ?flat" relu] l1 assms(4)
    by (intro dropout_shape) simp_all
  then have l2: "length (dense2 v keep2 (dense1 v keep1 ?flat)) = n" by (simp add: is_matrix_def)
  have sm: "is_matrix (softmax v (dense2 v keep2 (dense1 v keep1 ?flat))) n 1000"
    unfolding softmax_def using dense_shape[OF wf(3), of "dense2 v keep2 (dense1 v keep1 ?flat)" relu] l2
    by simp
  show ?thesis using f sm by (simp add: alexnet_def)
qed

lemma keep_all_example_shape: "is_matrix keep_all_example 1 4096"
  by (simp add: keep_all_example_def is_matrix_def)

text \<open>
  C9. For every batch of \<open>n\<close> images the output of convolution layer 5 has shape
  \<open>[n, 13, 13, 256]\<close>; reshaping it to \<open>[-1, 13*13*256]\<close> succeeds, keeps the \<open>n * 43264\<close>
  elements and gives one row of 43264 features per image, as many as the first dense
  kernel has rows, and the dense layers carry it to \<open>n\<close> rows of 1000 scores. In the
  recurrent notebook, for either network, reshaping the stacked
  hidden states to \<open>[-1, HIDDEN_DIM]\<close> gives \<open>batch * 9\<close> rows of 4, and the output cell
  returns a tensor of shape \<open>[batch, 9, 1]\<close> with one element per hidden vector. Whenever
  a reshape succeeds, the elements are unchanged and the new shape multiplies to their
  number.
\<close>

theorem reshapes_are_shape_compatible:
  assumes "has_shape4 images n 224 224 3" and "wf_alexnet_vars v"
    and "is_matrix keep1 n 4096" and "is_matrix keep2 n 4096"
    and "wf_rnn_weights w" and "wf_lstm_weights u" and "wf_seq_input x"
  shows "has_shape4 (conv5 v images) n 13 13 256
       \<and> 13 * 13 * 256 = (43264::int)
       \<and> tf_reshape (from_tensor4 (conv5 v images)) [- 1, 13 * 13 * 256]
           = Inr \<lparr>shape = [n, 43264], elems = elems (from_tensor4 (conv5 v images))\<rparr>
       \<and> length (elems (from_tensor4 (conv5 v images))) = n * 43264
       \<and> flatten_conv5 (conv5 v images) = Inr (map (\<lambda>img. concat (concat img)) (conv5 v images))
       \<and> is_matrix (map (\<lambda>img. concat (concat img)) (conv5 v images)) n (length (dkernel (fc_layer_1 v)))
       \<and> (\<exists>s. alexnet v keep1 keep2 images = Inr s \<and> is_matrix s n 1000)
       \<and> tf_reshape (from_tensor3 (rnn w x)) [- 1, int HIDDEN_DIM]
           = Inr \<lparr>shape = [length x * 9, 4], elems = elems (from_tensor3 (rnn w x))\<rparr>
       \<and> (\<exists>ys. outputs w (rnn w x) = Inr ys \<and> length ys = length x
              \<and> (\<forall>s \<in> set ys. is_matrix s 9 1)
              \<and> length (concat (concat ys)) = length (concat (rnn w x)))
       \<and> tf_reshape (from_tensor3 (lstm u x)) [- 1, int HIDDEN_DIM]
           = Inr \<lparr>shape = [length x * 9, 4], elems = elems (from_tensor3 (lstm u x))\<rparr>
       \<and> (\<exists>ys. outputs u (lstm u x) = Inr ys \<and> length ys = length x
              \<and> (\<forall>s \<in> set ys. is_matrix s 9 1)
              \<and> length (concat (concat ys)) = length (concat (lstm u x)))
       \<and> (\<forall>t dims t'. tf_reshape t dims = Inr t' \<longrightarrow>
              elems t' = elems t \<and> prod_list (shape t') = length (elems t))"
proof -
  note c5 = conv5_shape[OF assms(1), of v]
  have k: "length (dkernel (fc_layer_1 v)) = 43264"
    using assms(2) by (simp add: wf_alexnet_vars_def wf_dense_vars_def is_matrix_def)
  have e: "elems (from_tensor4 (conv5 v images))
      = concat (map (\<lambda>img. concat (concat img)) (conv5 v images))"
    by (simp add: from_tensor4_def concat_concat map_concat o_def)
  have fl: "tf_reshape (from_tensor4 (conv5 v images)) [- 1, 13 * 13 * 256]
           = Inr \<lparr>shape = [n, 43264], elems = elems (from_tensor4 (conv5 v images))\<rparr>"
    using flatten_images[OF c5] by (simp add: e)
  have m: "is_matrix (map (\<lambda>img. concat (concat img)) (conv5 v images)) n 43264"
    using flatten_conv5_value[OF c5] by simp
  have len: "length (elems (from_tensor4 (conv5 v images))) = n * 43264"
    unfolding e by (rule length_concat_matrix[OF m])
  have lr: "length (rnn w x) = length x" by (simp add: rnn_per_sequence)
  have ll: "length (lstm u x) = length x" by (simp add: lstm_batched)
  have ow: "wf_out_weights w" "wf_out_weights u"
    using assms(5,6) by (simp_all add: wf_rnn_weights_def wf_lstm_weights_def)
  have inv: "\<forall>t dims t'. tf_reshape t dims = Inr t' \<longrightarrow>
              elems t' = elems t \<and> prod_list (shape t') = length (elems t)"
    using tf_reshape_keeps_elements by blast
  have "has_shape4 (conv5 v images) n 13 13 256
       \<and> 13 * 13 * 256 = (43264::int)
       \<and> tf_reshape (from_tensor4 (conv5 v images)) [- 1, 13 * 13 * 256]
           = Inr \<lparr>shape = [n, 43264], elems = elems (from_tensor4 (conv5 v images))\<rparr>
       \<and> length (elems (from_tensor4 (conv5 v images))) = n * 43264
       \<and> flatten_conv5 (conv5 v images) = Inr (map (\<lambda>img. concat (concat img)) (conv5 v images))
       \<and> is_matrix (map (\<lambda>img. concat (concat img)) (conv5 v images)) n (length (dkernel (fc_layer_1 v)))"
    using c5 fl len flatten_conv5_value[OF c5] m k by simp
  moreover have "tf_reshape (from_tensor3 (rnn w x)) [- 1, int HIDDEN_DIM]
           = Inr \<lparr>shape = [length x * 9, 4], elems = elems (from_tensor3 (rnn w x))\<rparr>
       \<and> (\<exists>ys. outputs w (rnn w x) = Inr ys \<and> length ys = length x
              \<and> (\<forall>s \<in> set ys. is_matrix s 9 1)
              \<and> length (concat (concat ys)) = length (concat (rnn w x)))"
    using reshape_hiddens[OF rnn_shape[OF assms(5)], of x]
      outputs_shape[OF ow(1) rnn_shape[OF assms(5)], of x]
    by (simp add: lr)
  moreover have "tf_reshape (from_tensor3 (lstm u x)) [- 1, int HIDDEN_DIM]
           = Inr \<lparr>shape = [length x * 9, 4], elems = elems (from_tensor3 (lstm u x))\<rparr>
       \<and> (\<exists>ys. outputs u (lstm u x) = Inr ys \<and> length ys = length x
              \<and> (\<forall>s \<in> set ys. is_matrix s 9 1)
              \<and> length (concat (concat ys)) = length (concat (lstm u x)))"
    using reshape_hiddens[OF lstm_shape[OF assms(6)], of x]
      outputs_shape[OF ow(2) lstm_shape[OF assms(6)], of x]
    by (simp add: ll)
  ultimately show ?thesis
    using alexnet_forward_shape[OF assms(1-4)] inv by blast
qed

theorem reshapes_are_shape_compatible_witness:
  "has_shape4 images_example 1 224 224 3 \<and> wf_alexnet_vars alexnet_vars_example
   \<and> is_matrix keep_all_example 1 4096
   \<and> wf_rnn_weights rnn_weights_example \<and> wf_lstm_weights lstm_weights_example
   \<and> wf_seq_input seq_input_example
   \<and> has_shape4 (conv5 alexnet_vars_example images_example) 1 13 13 256
   \<and> length (elems (from_tensor4 (conv5 alexnet_vars_example images_example))) = 1 * 43264
   \<and> (\<exists>s. alexnet alexnet_vars_example keep_all_example keep_all_example images_example = Inr s
          \<and> is_matrix s 1 1000)
   \<and> (\<exists>ys. outputs rnn_weights_example (rnn rnn_weights_example seq_input_example) = Inr ys
          \<and> length ys = length seq_input_example)"
  using reshapes_are_shape_compatible[OF images_example_shape wf_alexnet_vars_example
      keep_all_example_shape keep_all_example_shape
      wf_rnn_weights_example wf_lstm_weights_example wf_seq_input_example]
    images_example_shape wf_alexnet_vars_example keep_all_example_shape
    wf_rnn_weights_example wf_lstm_weights_example wf_seq_input_example
  by blast


section \<open>Loss, parameter update and readout\<close>








subsection \<open>The update rules on the gradient of a loss\<close>






subsection \<open>The recurrent variables, flattened\<close>









subsection \<open>The gradient of the RNN loss at zero weights\<close>
















subsection \<open>The gradient of the LSTM loss at zero weights\<close>










subsection \<open>The AlexNet graph as a function of its variables\<close>













subsection \<open>The gradient of the AlexNet loss at a dead output layer\<close>










subsection \<open>Loss and readout of the three graphs\<close>








subsection \<open>The pipeline\<close>



end
